theory Spec2Isabelle
  imports Complex_Main "HOL-Library.Sublist"
begin

section \<open>Numbers, strings and errors of the TypeScript sources\<close>

text \<open>
  The services compute on JavaScript numbers. They are embedded as \<^typ>\<open>real\<close>: the
  arithmetic is the exact one that the IEEE doubles of the program approximate, and no value
  is NaN or infinite. Where the program divides, a theorem whose conclusion depends on the
  quotient assumes that the divisor is positive, because HOL's \<open>x / 0 = 0\<close> is not what
  the program computes there.
\<close>

datatype js_error = TypeError | Error string

text \<open>\<^verbatim>\<open>Math.round\<close>: the nearest integer, a tie going up.\<close>

definition Math_round :: "real \<Rightarrow> real" where
  "Math_round x = of_int \<lfloor>x + 1 / 2\<rfloor>"

text \<open>\<^verbatim>\<open>Math.atan2(y, x)\<close>, with the values the language fixes on the axes.\<close>

definition Math_atan2 :: "real \<Rightarrow> real \<Rightarrow> real" where
  "Math_atan2 y x =
     (if 0 < x then arctan (y / x)
      else if x < 0 \<and> 0 \<le> y then arctan (y / x) + pi
      else if x < 0 then arctan (y / x) - pi
      else if 0 < y then pi / 2
      else if y < 0 then - (pi / 2)
      else 0)"

text \<open>\<^verbatim>\<open>String.prototype.toLowerCase\<close> on ASCII letters, and \<^verbatim>\<open>includes\<close>.\<close>

definition toLowerCase :: "string \<Rightarrow> string" where
  "toLowerCase s =
     map (\<lambda>c. case map_of (zip ''ABCDEFGHIJKLMNOPQRSTUVWXYZ'' ''abcdefghijklmnopqrstuvwxyz'') c of
                 None \<Rightarrow> c
               | Some l \<Rightarrow> l) s"

fun str_includes :: "string \<Rightarrow> string \<Rightarrow> bool" where
  "str_includes [] sub = (sub = [])"
| "str_includes (c # cs) sub = (prefix sub (c # cs) \<or> str_includes cs sub)"

text \<open>The decimal digits of a non-negative integer, as a template literal prints them.\<close>

fun toString_nat :: "nat \<Rightarrow> string" where
  "toString_nat n =
     (if n < 10 then [''0123456789'' ! n]
      else toString_nat (n div 10) @ [''0123456789'' ! (n mod 10)])"

declare toString_nat.simps [simp del]

section \<open>Data model\<close>

text \<open>
  The declarations of \<^verbatim>\<open>@/types/ev\<close> are not among the sources; the records below
  carry the fields that the two services read and write. Connector types and networks are
  string literals in the program and strings here. Field names that two interfaces share
  are told apart by a prefix (\<open>station_lat\<close>, \<open>req_lat\<close>, \<open>ed_elevation\<close>).
\<close>

record RoutePoint =
  lat :: real
  lng :: real
  elevation :: "real option"

record ElevationData =
  ed_elevation :: real
  ed_distance :: real

record ChargingPort =
  port_type :: string

record EVModel =
  batteryCapacity :: real
  efficiency :: real
  mass :: real
  dragCoefficient :: real
  frontalArea :: real
  maxChargingSpeed :: real
  chargingPorts :: "ChargingPort list"

record WeatherData =
  temperature :: real
  windSpeed :: real
  condition :: string

record RouteSegment =
  startLat :: real
  startLng :: real
  endLat :: real
  endLng :: real
  distance :: real
  duration :: real
  elevationGain :: real
  energyRequired :: real

record ChargingStation =
  station_id :: string
  station_name :: string
  station_lat :: real
  station_lng :: real
  station_address :: string
  network :: string
  connectorTypes :: "string list"
  maxPower :: real
  isAvailable :: bool
  numberOfPorts :: real
  costPerKwh :: real
  amenities :: "string list"

record PublicChargingStationsRequest =
  req_lat :: real
  req_lng :: real
  radiusKm :: real
  req_connectorTypes :: "string list"

record PublicChargingStationsResponse =
  stations :: "ChargingStation list"

record ChargingStop =
  station :: ChargingStation
  arrivalSOC :: real
  departureSOC :: real
  chargingTime :: real
  energyAdded :: real

section \<open>dynamicRouteCalculationService.ts: distance, elevation and energy\<close>

definition calculateDistance :: "real \<Rightarrow> real \<Rightarrow> real \<Rightarrow> real \<Rightarrow> real" where
  "calculateDistance lat1 lon1 lat2 lon2 =
     (let R = 6371;
          dLat = (lat2 - lat1) * pi / 180;
          dLon = (lon2 - lon1) * pi / 180;
          a = sin (dLat / 2) * sin (dLat / 2) +
              cos (lat1 * pi / 180) * cos (lat2 * pi / 180) *
              sin (dLon / 2) * sin (dLon / 2);
          c = 2 * Math_atan2 (sqrt a) (sqrt (1 - a))
      in R * c)"

text \<open>The loop runs \<open>i = 0, \<dots>, numPoints\<close>, both ends included.\<close>

definition interpolateRoutePoints :: "RoutePoint \<Rightarrow> RoutePoint \<Rightarrow> nat \<Rightarrow> RoutePoint list" where
  "interpolateRoutePoints start endp numPoints =
     map (\<lambda>i. let ratio = real i / real numPoints
              in \<lparr>lat = lat start + (lat endp - lat start) * ratio,
                  lng = lng start + (lng endp - lng start) * ratio,
                  elevation = None\<rparr>)
         [0 ..< Suc numPoints]"

text \<open>
  The elevation service is a parameter: given the posted points it answers \<open>None\<close> when the
  request fails (network error, a status that is not ok, a body without results) and
  otherwise the \<open>elevation\<close> field of every result, \<open>None\<close> for a field that is absent or
  falsy (\<^verbatim>\<open>result.elevation || 0\<close>).
\<close>

type_synonym ElevationApi = "RoutePoint list \<Rightarrow> real option list option"

definition getElevationProfile :: "ElevationApi \<Rightarrow> RoutePoint \<Rightarrow> RoutePoint \<Rightarrow> ElevationData list" where
  "getElevationProfile elevationApi orig dest =
     (let points = interpolateRoutePoints orig dest 10
      in case elevationApi points of
           Some results \<Rightarrow>
             map (\<lambda>(result, index).
                    \<lparr>ed_elevation = (case result of None \<Rightarrow> 0 | Some e \<Rightarrow> e),
                     ed_distance = real index *
                       (calculateDistance (lat orig) (lng orig) (lat dest) (lng dest)
                          / real (length points))\<rparr>)
                 (zip results [0 ..< length results])
         | None \<Rightarrow>
             (let distKm = calculateDistance (lat orig) (lng orig) (lat dest) (lng dest)
              in [\<lparr>ed_elevation = 50, ed_distance = 0\<rparr>,
                  \<lparr>ed_elevation = 50, ed_distance = distKm\<rparr>]))"

text \<open>The loop of \<open>calculateElevationGain\<close>, over consecutive pairs, with \<open>totalGain\<close> as accumulator.\<close>

fun elevationGainLoop :: "real \<Rightarrow> ElevationData list \<Rightarrow> real" where
  "elevationGainLoop totalGain (p # q # rest) =
     (let gain = ed_elevation q - ed_elevation p
      in elevationGainLoop (if gain > 0 then totalGain + gain else totalGain) (q # rest))"
| "elevationGainLoop totalGain [p] = totalGain"
| "elevationGainLoop totalGain [] = totalGain"

definition calculateElevationGain :: "ElevationData list \<Rightarrow> real" where
  "calculateElevationGain elevationProfile = Math_round (elevationGainLoop 0 elevationProfile)"

definition getWeatherMultiplier :: "WeatherData \<Rightarrow> EVModel \<Rightarrow> real" where
  "getWeatherMultiplier weather veh =
     (let multiplier = 1;
          multiplier = (if temperature weather < 0 then multiplier + 0.3
                        else if temperature weather < 10 then multiplier + 0.15
                        else if temperature weather > 35 then multiplier + 0.1
                        else multiplier);
          windImpact = min 0.2 (windSpeed weather / 100)
      in multiplier + windImpact)"

definition calculateAirResistanceImpact :: "real \<Rightarrow> EVModel \<Rightarrow> WeatherData \<Rightarrow> real" where
  "calculateAirResistanceImpact distKm veh weather =
     (let averageSpeed = 80;
          airDensity = 1.225;
          dragForce = 0.5 * airDensity * dragCoefficient veh * frontalArea veh
                        * (averageSpeed / 3.6) ^ 2;
          powerRequired = dragForce * (averageSpeed / 3.6) / 1000;
          timeHours = distKm / averageSpeed
      in powerRequired * timeHours * 0.1)"

definition calculateEnergyConsumption :: "real \<Rightarrow> real \<Rightarrow> EVModel \<Rightarrow> WeatherData \<Rightarrow> real" where
  "calculateEnergyConsumption distKm gain veh weather =
     (let baseConsumption = (distKm * efficiency veh) / 1000;
          elevationImpact = (gain / 100) * (mass veh / 1000) * 0.1;
          weatherMultiplier = getWeatherMultiplier weather veh;
          airResistanceImpact = calculateAirResistanceImpact distKm veh weather;
          totalConsumption = (baseConsumption + elevationImpact + airResistanceImpact) * weatherMultiplier
      in max 0 totalConsumption)"

definition estimateAverageSpeed :: "real \<Rightarrow> WeatherData \<Rightarrow> real" where
  "estimateAverageSpeed distKm weather =
     (let baseSpeed = (if distKm < 50 then 60 else if distKm < 200 then 70 else 80);
          baseSpeed = (if str_includes (toLowerCase (condition weather)) ''rain'' \<or>
                          str_includes (toLowerCase (condition weather)) ''storm''
                       then baseSpeed * 0.8 else baseSpeed);
          baseSpeed = (if windSpeed weather > 50 then baseSpeed * 0.9 else baseSpeed)
      in max 30 baseSpeed)"

definition calculateRouteSegments ::
    "RoutePoint \<Rightarrow> RoutePoint \<Rightarrow> EVModel \<Rightarrow> ElevationData list \<Rightarrow> WeatherData \<Rightarrow> RouteSegment list" where
  "calculateRouteSegments orig dest veh elevationProfile weather =
     (let totalDist = calculateDistance (lat orig) (lng orig) (lat dest) (lng dest);
          gain = calculateElevationGain elevationProfile;
          energy = calculateEnergyConsumption totalDist gain veh weather;
          averageSpeed = estimateAverageSpeed totalDist weather;
          minutes = (totalDist / averageSpeed) * 60
      in [\<lparr>startLat = lat orig,
           startLng = lng orig,
           endLat = lat dest,
           endLng = lng dest,
           distance = totalDist,
           duration = Math_round minutes,
           elevationGain = gain,
           energyRequired = Math_round (energy * 10) / 10\<rparr>])"

definition calculateWeatherImpact :: "WeatherData \<Rightarrow> real" where
  "calculateWeatherImpact weather =
     (let impact = 0;
          impact = (if temperature weather < 0 then impact - 30
                    else if temperature weather < 10 then impact - 15
                    else if temperature weather > 35 then impact - 10
                    else impact);
          impact = (if windSpeed weather > 30 then impact - 5 else impact)
      in max (- 40) (min 10 impact))"

section \<open>realChargingStationService.ts: the station directory and its fallback\<close>

text \<open>The service has its own copy of the haversine distance.\<close>

definition stationService_calculateDistance :: "real \<Rightarrow> real \<Rightarrow> real \<Rightarrow> real \<Rightarrow> real" where
  "stationService_calculateDistance lat1 lon1 lat2 lon2 =
     (let R = 6371;
          dLat = (lat2 - lat1) * pi / 180;
          dLon = (lon2 - lon1) * pi / 180;
          a = sin (dLat / 2) * sin (dLat / 2) +
              cos (lat1 * pi / 180) * cos (lat2 * pi / 180) *
              sin (dLon / 2) * sin (dLon / 2);
          c = 2 * Math_atan2 (sqrt a) (sqrt (1 - a))
      in R * c)"

text \<open>The array literal of \<open>getFallbackStations\<close>.\<close>

definition fallbackStations :: "ChargingStation list" where
  "fallbackStations =
     [\<lparr>station_id = ''dewa-mall-emirates'',
       station_name = ''Mall of the Emirates - DEWA Green Charger'',
       station_lat = 25.1172,
       station_lng = 55.2001,
       station_address = ''Mall of the Emirates, Sheikh Zayed Road, Dubai, UAE'',
       network = ''DEWA'',
       connectorTypes = [''CCS2'', ''CHAdeMO''],
       maxPower = 150,
       isAvailable = True,
       numberOfPorts = 4,
       costPerKwh = 0.29,
       amenities = [''Shopping Mall'', ''Restaurants'', ''Cinema'', ''Free WiFi'']\<rparr>,
      \<lparr>station_id = ''dewa-dubai-mall'',
       station_name = ''Dubai Mall - DEWA Station'',
       station_lat = 25.1972,
       station_lng = 55.2744,
       station_address = ''Dubai Mall, Downtown Dubai, UAE'',
       network = ''DEWA'',
       connectorTypes = [''CCS2'', ''Type2''],
       maxPower = 120,
       isAvailable = True,
       numberOfPorts = 8,
       costPerKwh = 0.29,
       amenities = [''Shopping Mall'', ''Burj Khalifa view'', ''Metro station'']\<rparr>,
      \<lparr>station_id = ''tesla-jbr'',
       station_name = ''Tesla Supercharger - JBR'',
       station_lat = 25.0657,
       station_lng = 55.1398,
       station_address = ''Jumeirah Beach Residence, Dubai, UAE'',
       network = ''Tesla'',
       connectorTypes = [''Tesla'', ''CCS2''],
       maxPower = 250,
       isAvailable = True,
       numberOfPorts = 12,
       costPerKwh = 0.35,
       amenities = [''Beach access'', ''Restaurants'', ''Parking'']\<rparr>,
      \<lparr>station_id = ''addc-yas-mall'',
       station_name = ''Yas Mall - ADDC Fast Charger'',
       station_lat = 24.4888,
       station_lng = 54.6094,
       station_address = ''Yas Island, Abu Dhabi, UAE'',
       network = ''ADDC'',
       connectorTypes = [''CCS2'', ''CHAdeMO'', ''Type2''],
       maxPower = 180,
       isAvailable = True,
       numberOfPorts = 6,
       costPerKwh = 0.27,
       amenities = [''Shopping Mall'', ''Theme parks nearby'', ''F1 Circuit'']\<rparr>,
      \<lparr>station_id = ''addc-corniche'',
       station_name = ''Corniche Beach - ADDC Station'',
       station_lat = 24.4764,
       station_lng = 54.3705,
       station_address = ''Corniche Road, Abu Dhabi, UAE'',
       network = ''ADDC'',
       connectorTypes = [''CCS2'', ''Type2''],
       maxPower = 100,
       isAvailable = True,
       numberOfPorts = 4,
       costPerKwh = 0.27,
       amenities = [''Beach access'', ''Restaurants'', ''Parking'']\<rparr>,
      \<lparr>station_id = ''sewa-city-centre'',
       station_name = ''City Centre Sharjah - SEWA'',
       station_lat = 25.3373,
       station_lng = 55.4209,
       station_address = ''City Centre Sharjah, Sharjah, UAE'',
       network = ''SEWA'',
       connectorTypes = [''CCS2'', ''Type2''],
       maxPower = 120,
       isAvailable = True,
       numberOfPorts = 4,
       costPerKwh = 0.28,
       amenities = [''Shopping Mall'', ''Restaurants'', ''Cinema'']\<rparr>,
      \<lparr>station_id = ''sec-khobar'',
       station_name = ''Al Khobar Charging Hub'',
       station_lat = 26.2172,
       station_lng = 50.1971,
       station_address = ''Prince Faisal Bin Fahd Road, Al Khobar, Saudi Arabia'',
       network = ''Other'',
       connectorTypes = [''CCS2'', ''CHAdeMO''],
       maxPower = 150,
       isAvailable = True,
       numberOfPorts = 6,
       costPerKwh = 0.25,
       amenities = [''Shopping Center'', ''Restaurants'', ''Parking'']\<rparr>,
      \<lparr>station_id = ''kahramaa-doha'',
       station_name = ''Doha Festival City - KAHRAMAA'',
       station_lat = 25.3548,
       station_lng = 51.4326,
       station_address = ''Doha Festival City, Doha, Qatar'',
       network = ''Other'',
       connectorTypes = [''CCS2'', ''Type2''],
       maxPower = 120,
       isAvailable = True,
       numberOfPorts = 4,
       costPerKwh = 0.27,
       amenities = [''Shopping Mall'', ''Restaurants'', ''Free WiFi'']\<rparr>,
      \<lparr>station_id = ''oman-muscat-mall'',
       station_name = ''Muscat Grand Mall Charging Station'',
       station_lat = 23.6086,
       station_lng = 58.4291,
       station_address = ''Muscat Grand Mall, Muscat, Oman'',
       network = ''Other'',
       connectorTypes = [''CCS2'', ''Type2''],
       maxPower = 100,
       isAvailable = True,
       numberOfPorts = 4,
       costPerKwh = 0.31,
       amenities = [''Shopping Mall'', ''Restaurants'', ''Parking'']\<rparr>]"

definition getFallbackStations :: "PublicChargingStationsRequest \<Rightarrow> PublicChargingStationsResponse" where
  "getFallbackStations request =
     (let filteredStations =
            filter (\<lambda>s. let d = stationService_calculateDistance
                                     (req_lat request) (req_lng request) (station_lat s) (station_lng s)
                          in d \<le> radiusKm request)
                   fallbackStations
      in \<lparr>stations = filteredStations\<rparr>)"

text \<open>
  The live source (the HTTP request to OpenChargeMap followed by \<open>transformStations\<close>) is a
  parameter: \<open>None\<close> when the request rejects, the status is not ok or the body cannot be
  turned into stations (each of which the service answers with the fallback), and otherwise
  the transformed stations.
\<close>

type_synonym LiveSource = "PublicChargingStationsRequest \<Rightarrow> ChargingStation list option"

definition getNearbyStations :: "LiveSource \<Rightarrow> PublicChargingStationsRequest \<Rightarrow> PublicChargingStationsResponse" where
  "getNearbyStations live request =
     (case live request of
        None \<Rightarrow> getFallbackStations request
      | Some sts \<Rightarrow> \<lparr>stations = sts\<rparr>)"

section \<open>dynamicRouteCalculationService.ts: the charging-stop planner\<close>

definition scoreChargingStation :: "ChargingStation \<Rightarrow> real" where
  "scoreChargingStation s =
     (let score = 0;
          score = score + maxPower s / 10;
          score = (if network s = ''Tesla'' then score + 20
                   else if network s = ''DEWA'' then score + 15
                   else if network s = ''ADDC'' then score + 10
                   else score);
          score = score + numberOfPorts s;
          score = score + real (length (amenities s))
      in score)"

text \<open>
  \<open>compatibleStation\<close> is the predicate of the filter in \<open>findBestChargingStation\<close>;
  \<open>socNeededFor\<close> and \<open>stationRequest\<close> below are the segment's need in percent and
  the request sent to the directory, which the loop writes inline.
\<close>

definition compatibleStation :: "EVModel \<Rightarrow> ChargingStation \<Rightarrow> bool" where
  "compatibleStation veh s =
     (let hasCompatibleConnector =
            list_ex (\<lambda>t. list_ex (\<lambda>port. port_type port = t) (chargingPorts veh)) (connectorTypes s)
      in isAvailable s \<and> hasCompatibleConnector)"

text \<open>\<open>reduce\<close> without an initial value starts from the first element.\<close>

definition findBestChargingStation :: "ChargingStation list \<Rightarrow> EVModel \<Rightarrow> ChargingStation option" where
  "findBestChargingStation sts veh =
     (let compatibleStations = filter (compatibleStation veh) sts
      in case compatibleStations of
           [] \<Rightarrow> None
         | first # others \<Rightarrow>
             Some (foldl (\<lambda>best current.
                            let currentScore = scoreChargingStation current;
                                bestScore = scoreChargingStation best
                            in if currentScore > bestScore then current else best)
                         first others))"

text \<open>The three variables that the loop of \<open>findOptimalChargingStops\<close> updates.\<close>

record PlannerState =
  stops :: "ChargingStop list"
  currentSOC :: real
  currentPosition :: "real \<times> real"

definition socNeededFor :: "EVModel \<Rightarrow> RouteSegment \<Rightarrow> real" where
  "socNeededFor veh segment = (energyRequired segment / batteryCapacity veh) * 100"

definition stationRequest :: "EVModel \<Rightarrow> PlannerState \<Rightarrow> PublicChargingStationsRequest" where
  "stationRequest veh st =
     \<lparr>req_lat = fst (currentPosition st),
      req_lng = snd (currentPosition st),
      radiusKm = 50,
      req_connectorTypes = map port_type (chargingPorts veh)\<rparr>"

text \<open>One iteration of the loop, for one segment.\<close>

definition planSegment :: "LiveSource \<Rightarrow> EVModel \<Rightarrow> PlannerState \<Rightarrow> RouteSegment \<Rightarrow> PlannerState" where
  "planSegment live veh st segment =
     (let socNeeded = socNeededFor veh segment;
          st1 =
            (if currentSOC st - socNeeded < 20 then
               (let nearbyStations = getNearbyStations live (stationRequest veh st)
                in case findBestChargingStation (stations nearbyStations) veh of
                     None \<Rightarrow> st
                   | Some bestStation \<Rightarrow>
                       (let targetSOC = 80;
                            energyToAdd = batteryCapacity veh * (targetSOC - currentSOC st) / 100;
                            chargingPower = min (maxPower bestStation) (maxChargingSpeed veh);
                            minutes = (energyToAdd / chargingPower) * 60
                        in st\<lparr>stops := stops st @
                                 [\<lparr>station = bestStation,
                                   arrivalSOC = Math_round (currentSOC st),
                                   departureSOC = targetSOC,
                                   chargingTime = Math_round minutes,
                                   energyAdded = Math_round (energyToAdd * 10) / 10\<rparr>],
                               currentSOC := targetSOC\<rparr>))
             else st)
      in st1\<lparr>currentPosition := (endLat segment, endLng segment),
             currentSOC := currentSOC st1 - socNeeded\<rparr>)"

text \<open>
  The state after each segment, in order. Reading \<open>segments[0]\<close> of an empty array throws a
  \<open>TypeError\<close> before the loop.
\<close>

fun plannerStates :: "LiveSource \<Rightarrow> EVModel \<Rightarrow> PlannerState \<Rightarrow> RouteSegment list \<Rightarrow> PlannerState list" where
  "plannerStates live veh st [] = []"
| "plannerStates live veh st (segment # rest) =
     (let st' = planSegment live veh st segment in st' # plannerStates live veh st' rest)"

definition initialState :: "RouteSegment \<Rightarrow> real \<Rightarrow> PlannerState" where
  "initialState segment0 soc =
     \<lparr>stops = [], currentSOC = soc, currentPosition = (startLat segment0, startLng segment0)\<rparr>"

definition findOptimalChargingStops ::
    "LiveSource \<Rightarrow> RouteSegment list \<Rightarrow> EVModel \<Rightarrow> real \<Rightarrow> js_error + ChargingStop list" where
  "findOptimalChargingStops live segs veh soc =
     (case segs of
        [] \<Rightarrow> Inl TypeError
      | segment0 # _ \<Rightarrow>
          Inr (stops (foldl (planSegment live veh) (initialState segment0 soc) segs)))"

text \<open>
  The running SOC at every segment boundary: the initial one, then the one after each segment
  (empty for the empty list, on which the planner throws).
\<close>

definition socTrajectory :: "LiveSource \<Rightarrow> RouteSegment list \<Rightarrow> EVModel \<Rightarrow> real \<Rightarrow> real list" where
  "socTrajectory live segs veh soc =
     (case segs of
        [] \<Rightarrow> []
      | segment0 # _ \<Rightarrow>
          soc # map currentSOC (plannerStates live veh (initialState segment0 soc) segs))"

text \<open>
  Whether the directory offers an eligible station at every segment where the buffer check
  asks for a stop, along the run of the loop from the state \<open>st\<close>.
\<close>

fun stationWheneverRequired :: "LiveSource \<Rightarrow> EVModel \<Rightarrow> PlannerState \<Rightarrow> RouteSegment list \<Rightarrow> bool" where
  "stationWheneverRequired live veh st [] = True"
| "stationWheneverRequired live veh st (segment # rest) =
     ((currentSOC st - socNeededFor veh segment < 20 \<longrightarrow>
         findBestChargingStation (stations (getNearbyStations live (stationRequest veh st))) veh \<noteq> None)
      \<and> stationWheneverRequired live veh (planSegment live veh st segment) rest)"

section \<open>dynamicRouteCalculationService.ts: the assembled plan\<close>

record PlanLocation = RoutePoint +
  address :: string

record RoutePlan =
  plan_id :: string
  origin :: PlanLocation
  destination :: PlanLocation
  vehicle :: EVModel
  initialSOC :: real
  segments :: "RouteSegment list"
  chargingStops :: "ChargingStop list"
  totalDistance :: real
  totalDuration :: real
  totalEnergyUsed :: real
  finalSOC :: real
  weatherImpact :: real

text \<open>
  What a request sees of the outside: the elevation service, the weather service (\<open>None\<close>
  when \<open>getCurrentWeather\<close> rejects), the live station source and the clock that
  \<open>Date.now()\<close> reads, in milliseconds.
\<close>

record Env =
  elevationApi :: ElevationApi
  getCurrentWeather :: "real \<Rightarrow> real \<Rightarrow> WeatherData option"
  openChargeMap :: LiveSource
  dateNow :: nat

definition calculateOptimalRoute ::
    "Env \<Rightarrow> RoutePoint \<Rightarrow> RoutePoint \<Rightarrow> EVModel \<Rightarrow> real \<Rightarrow> WeatherData option \<Rightarrow> js_error + RoutePlan" where
  "calculateOptimalRoute env orig dest veh soc weatherData =
     (let elevationProfile = getElevationProfile (elevationApi env) orig dest;
          fetched = (case weatherData of
                       Some w \<Rightarrow> Some w
                     | None \<Rightarrow> getCurrentWeather env ((lat orig + lat dest) / 2) ((lng orig + lng dest) / 2))
      in case fetched of
           None \<Rightarrow> Inl (Error ''Failed to calculate optimal route'')
         | Some weather \<Rightarrow>
             (let segs = calculateRouteSegments orig dest veh elevationProfile weather
              in case findOptimalChargingStops (openChargeMap env) segs veh soc of
                   Inl e \<Rightarrow> Inl (Error ''Failed to calculate optimal route'')
                 | Inr cstops \<Rightarrow>
                     (let totalDist = foldl (\<lambda>sum seg. sum + distance seg) 0 segs;
                          totalDrivingTime = foldl (\<lambda>sum seg. sum + duration seg) 0 segs;
                          totalChargingTime = foldl (\<lambda>sum stop. sum + chargingTime stop) 0 cstops;
                          totalEnergy = foldl (\<lambda>sum seg. sum + energyRequired seg) 0 segs;
                          added = foldl (\<lambda>sum stop. sum + energyAdded stop) 0 cstops;
                          final = max 0 (soc - (totalEnergy / batteryCapacity veh * 100)
                                             + (added / batteryCapacity veh * 100))
                      in Inr \<lparr>plan_id = ''route-'' @ toString_nat (dateNow env),
                              origin = RoutePoint.extend orig \<lparr>address = ''Origin''\<rparr>,
                              destination = RoutePoint.extend dest \<lparr>address = ''Destination''\<rparr>,
                              vehicle = veh,
                              initialSOC = soc,
                              segments = segs,
                              chargingStops = cstops,
                              totalDistance = Math_round totalDist,
                              totalDuration = Math_round (totalDrivingTime + totalChargingTime),
                              totalEnergyUsed = Math_round (totalEnergy * 10) / 10,
                              finalSOC = Math_round final,
                              weatherImpact = calculateWeatherImpact weather\<rparr>)))"

section \<open>Concrete inputs\<close>

text \<open>
  Inputs at which the theorems below are instantiated: a 75 kWh vehicle with a CCS2 port,
  temperate weather, the first station of the fallback list, a point in Dubai, a leg of a
  given energy, and an environment whose elevation service fails and whose live source
  offers that one station.
\<close>

definition vehicleA :: EVModel where
  "vehicleA =
     \<lparr>batteryCapacity = 75, efficiency = 150, mass = 1800, dragCoefficient = 0.23,
      frontalArea = 2.22, maxChargingSpeed = 150, chargingPorts = [\<lparr>port_type = ''CCS2''\<rparr>]\<rparr>"

definition weatherA :: WeatherData where
  "weatherA = \<lparr>temperature = 25, windSpeed = 10, condition = ''clear''\<rparr>"

definition stationA :: ChargingStation where
  "stationA = hd fallbackStations"

definition pointA :: RoutePoint where
  "pointA = \<lparr>lat = 25, lng = 55, elevation = None\<rparr>"

definition envA :: Env where
  "envA =
     \<lparr>elevationApi = (\<lambda>points. None),
      getCurrentWeather = (\<lambda>la lo. Some weatherA),
      openChargeMap = (\<lambda>request. Some [stationA]),
      dateNow = 1700000000000\<rparr>"

definition legA :: "real \<Rightarrow> RouteSegment" where
  "legA energy =
     \<lparr>startLat = 25, startLng = 55, endLat = 24, endLng = 54,
      distance = 140, duration = 120, elevationGain = 0, energyRequired = energy\<rparr>"

section \<open>Auxiliary facts\<close>

subsection \<open>Rounding\<close>

lemma Math_round_le: "Math_round x \<le> x + 1 / 2"
  unfolding Math_round_def by linarith

lemma Math_round_gt: "x - 1 / 2 < Math_round x"
  unfolding Math_round_def by linarith

lemma Math_round_abs: "\<bar>Math_round x - x\<bar> \<le> 1 / 2"
  using Math_round_le [of x] Math_round_gt [of x] by linarith

lemma Math_round_nonneg: "0 \<le> x \<Longrightarrow> 0 \<le> Math_round x"
  unfolding Math_round_def by simp

lemma Math_round_le_int: "x \<le> of_int n \<Longrightarrow> Math_round x \<le> of_int n"
  unfolding Math_round_def by (simp add: floor_le_iff; linarith)

lemma Math_round_mono: "x \<le> y \<Longrightarrow> Math_round x \<le> Math_round y"
  unfolding Math_round_def by (simp add: floor_mono)

lemma charging_time_tolerance:
  fixes added toAdd power minutes :: real
  assumes power: "0 < power"
    and added: "\<bar>added - toAdd\<bar> \<le> 1 / 20"
    and minutes: "\<bar>minutes - toAdd / power * 60\<bar> \<le> 1 / 2"
  shows "\<bar>minutes - added / power * 60\<bar> \<le> 1 / 2 + 3 / power"
proof -
  define x where "x = added / power * 60"
  define y where "y = toAdd / power * 60"
  have "x - y = (added - toAdd) * (60 / power)"
    unfolding x_def y_def by (simp add: algebra_simps diff_divide_distrib)
  then have "\<bar>x - y\<bar> = \<bar>added - toAdd\<bar> * \<bar>60 / power\<bar>"
    by (simp only: abs_mult)
  also have "\<bar>60 / power\<bar> = 60 / power"
    using power by simp
  finally have "\<bar>x - y\<bar> = \<bar>added - toAdd\<bar> * (60 / power)" .
  also have "\<dots> \<le> 1 / 20 * (60 / power)"
    using added power by (intro mult_right_mono) simp_all
  also have "\<dots> = 3 / power" by simp
  finally have "\<bar>x - y\<bar> \<le> 3 / power" .
  with minutes have "\<bar>minutes - x\<bar> \<le> 1 / 2 + 3 / power"
    unfolding y_def [symmetric] by linarith
  then show ?thesis unfolding x_def .
qed

subsection \<open>The loop body by cases, and the loop as a fold\<close>

lemma planSegment_not_required:
  "\<not> currentSOC st - socNeededFor veh segment < 20 \<Longrightarrow>
   planSegment live veh st segment =
     st\<lparr>currentPosition := (endLat segment, endLng segment),
        currentSOC := currentSOC st - socNeededFor veh segment\<rparr>"
  by (simp add: planSegment_def Let_def)

lemma planSegment_no_station:
  "findBestChargingStation (stations (getNearbyStations live (stationRequest veh st))) veh = None \<Longrightarrow>
   planSegment live veh st segment =
     st\<lparr>currentPosition := (endLat segment, endLng segment),
        currentSOC := currentSOC st - socNeededFor veh segment\<rparr>"
  by (simp add: planSegment_def Let_def)

lemma planSegment_stop:
  "currentSOC st - socNeededFor veh segment < 20 \<Longrightarrow>
   findBestChargingStation (stations (getNearbyStations live (stationRequest veh st))) veh = Some b \<Longrightarrow>
   planSegment live veh st segment =
     st\<lparr>stops := stops st @
            [\<lparr>station = b,
              arrivalSOC = Math_round (currentSOC st),
              departureSOC = 80,
              chargingTime = Math_round ((batteryCapacity veh * (80 - currentSOC st) / 100
                                /  min (maxPower b) (maxChargingSpeed veh)) * 60),
              energyAdded = Math_round (batteryCapacity veh * (80 - currentSOC st) / 100 * 10) / 10\<rparr>],
        currentPosition := (endLat segment, endLng segment),
        currentSOC := 80 - socNeededFor veh segment\<rparr>"
  by (simp add: planSegment_def Let_def)

lemma foldl_planSegment:
  "foldl (planSegment live veh) st segs = last (st # plannerStates live veh st segs)"
  by (induction segs arbitrary: st) (simp_all add: Let_def)

lemma length_plannerStates: "length (plannerStates live veh st segs) = length segs"
  by (induction segs arbitrary: st) (simp_all add: Let_def)

lemma length_stops_planSegment:
  "length (stops (planSegment live veh st segment)) \<le> Suc (length (stops st))"
  by (simp add: planSegment_def Let_def split: option.splits)

lemma length_stops_foldl:
  "length (stops (foldl (planSegment live veh) st segs)) \<le> length (stops st) + length segs"
proof (induction segs arbitrary: st)
  case Nil
  show ?case by simp
next
  case (Cons segment rest)
  have "length (stops (foldl (planSegment live veh) (planSegment live veh st segment) rest))
          \<le> length (stops (planSegment live veh st segment)) + length rest"
    by (rule Cons.IH)
  also have "\<dots> \<le> Suc (length (stops st)) + length rest"
    using length_stops_planSegment [of live veh st segment] by simp
  finally show ?case by simp
qed

lemma length_calculateRouteSegments:
  "length (calculateRouteSegments orig dest veh profile weather) = 1"
  by (simp add: calculateRouteSegments_def Let_def)

lemma calculateOptimalRoute_Inr:
  assumes "calculateOptimalRoute env orig dest veh soc weatherData = Inr plan"
  shows "\<exists>weather.
           segments plan = calculateRouteSegments orig dest veh
                             (getElevationProfile (elevationApi env) orig dest) weather \<and>
           findOptimalChargingStops (openChargeMap env) (segments plan) veh soc = Inr (chargingStops plan) \<and>
           finalSOC plan =
             Math_round (max 0 (soc - (foldl (\<lambda>sum seg. sum + energyRequired seg) 0 (segments plan)
                                         / batteryCapacity veh * 100)
                                    + (foldl (\<lambda>sum stop. sum + energyAdded stop) 0 (chargingStops plan)
                                         / batteryCapacity veh * 100)))"
  using assms
  by (auto simp add: calculateOptimalRoute_def Let_def split: option.splits sum.splits)

subsection \<open>Runs on the concrete inputs\<close>

lemma calculateDistance_same: "calculateDistance x y x y = 0"
  by (simp add: calculateDistance_def Math_atan2_def)

lemma stationA_eq: "stationA = 
      \<lparr>station_id = ''dewa-mall-emirates'',
       station_name = ''Mall of the Emirates - DEWA Green Charger'',
       station_lat = 25.1172,
       station_lng = 55.2001,
       station_address = ''Mall of the Emirates, Sheikh Zayed Road, Dubai, UAE'',
       network = ''DEWA'',
       connectorTypes = [''CCS2'', ''CHAdeMO''],
       maxPower = 150,
       isAvailable = True,
       numberOfPorts = 4,
       costPerKwh = 0.29,
       amenities = [''Shopping Mall'', ''Restaurants'', ''Cinema'', ''Free WiFi'']\<rparr>"
  by (simp add: stationA_def fallbackStations_def)

lemma findBest_stationA: "findBestChargingStation [stationA] vehicleA = Some stationA"
  by (simp add: findBestChargingStation_def compatibleStation_def stationA_eq vehicleA_def)

lemma segsA: "calculateRouteSegments pointA pointA vehicleA (getElevationProfile (\<lambda>points. None) pointA pointA) weatherA
   = [\<lparr>startLat = 25, startLng = 55, endLat = 25, endLng = 55,
      distance = 0, duration = 0, elevationGain = 0, energyRequired = 0\<rparr>]"
  by (simp add: calculateRouteSegments_def getElevationProfile_def calculateDistance_same
      calculateElevationGain_def calculateEnergyConsumption_def calculateAirResistanceImpact_def
      getWeatherMultiplier_def estimateAverageSpeed_def Math_round_def pointA_def weatherA_def vehicleA_def
      toLowerCase_def Let_def)

lemma stopsA: "findOptimalChargingStops (\<lambda>request. Some [stationA]) [legA 60, legA 60] vehicleA 10
   = Inr [\<lparr>station = stationA, arrivalSOC = 10, departureSOC = 80, chargingTime = 21, energyAdded = 52.5\<rparr>,
          \<lparr>station = stationA, arrivalSOC = 0, departureSOC = 80, chargingTime = 24, energyAdded = 60\<rparr>]"
  by (simp add: findOptimalChargingStops_def planSegment_def getNearbyStations_def findBest_stationA
       socNeededFor_def initialState_def Math_round_def legA_def Let_def)
    (simp add: vehicleA_def stationA_eq)


lemma stop_single: "findOptimalChargingStops (\<lambda>request. Some [stationA])
      [\<lparr>startLat = 25, startLng = 55, endLat = 25, endLng = 55,
      distance = 0, duration = 0, elevationGain = 0, energyRequired = 0\<rparr>] vehicleA 10
   = Inr [\<lparr>station = stationA, arrivalSOC = 10, departureSOC = 80, chargingTime = 21, energyAdded = 52.5\<rparr>]"
  by (simp add: findOptimalChargingStops_def planSegment_def getNearbyStations_def findBest_stationA
       socNeededFor_def initialState_def Math_round_def Let_def)
    (simp add: vehicleA_def stationA_eq)

lemma toString_now: "toString_nat 1700000000000 = ''1700000000000''"
  by (simp add: toString_nat.simps)

lemma planA:
  "calculateOptimalRoute envA pointA pointA vehicleA 10 None =
     Inr \<lparr>plan_id = ''route-1700000000000'',
          origin = \<lparr>lat = 25, lng = 55, elevation = None, address = ''Origin''\<rparr>,
          destination = \<lparr>lat = 25, lng = 55, elevation = None, address = ''Destination''\<rparr>,
          vehicle = vehicleA,
          initialSOC = 10,
          segments = [\<lparr>startLat = 25, startLng = 55, endLat = 25, endLng = 55,
                       distance = 0, duration = 0, elevationGain = 0, energyRequired = 0\<rparr>],
          chargingStops = [\<lparr>station = stationA, arrivalSOC = 10, departureSOC = 80,
                            chargingTime = 21, energyAdded = 52.5\<rparr>],
          totalDistance = 0,
          totalDuration = 21,
          totalEnergyUsed = 0,
          finalSOC = 80,
          weatherImpact = 0\<rparr>"
proof -
  have e: "elevationApi envA = (\<lambda>points. None)" "getCurrentWeather envA = (\<lambda>la lo. Some weatherA)"
    "openChargeMap envA = (\<lambda>request. Some [stationA])" "dateNow envA = 1700000000000"
    by (simp_all add: envA_def)
  show ?thesis
    by (simp add: calculateOptimalRoute_def e segsA stop_single toString_now Let_def)
       (simp add: Math_round_def calculateWeatherImpact_def weatherA_def vehicleA_def pointA_def
          RoutePoint.extend_def RoutePoint.defs PlanLocation.defs)
qed

subsection \<open>Station selection and totality\<close>

lemma findBestChargingStation_None_iff:
  "findBestChargingStation sts veh = None \<longleftrightarrow> (\<forall>s\<in>set sts. \<not> compatibleStation veh s)"
proof -
  have "findBestChargingStation sts veh = None \<longleftrightarrow> filter (compatibleStation veh) sts = []"
    by (cases "filter (compatibleStation veh) sts") (simp_all add: findBestChargingStation_def)
  then show ?thesis by (simp add: filter_empty_conv)
qed

lemma compatibleStation_iff:
  "compatibleStation veh s \<longleftrightarrow>
     isAvailable s \<and> set (connectorTypes s) \<inter> port_type ` set (chargingPorts veh) \<noteq> {}"
  by (auto simp add: compatibleStation_def Let_def list_ex_iff)

lemma findBestChargingStation_Some:
  "findBestChargingStation sts veh = Some b \<Longrightarrow> b \<in> set sts \<and> compatibleStation veh b"
proof -
  have pick: "foldl (\<lambda>best current. if scoreChargingStation current > scoreChargingStation best
                                      then current else best) x xs \<in> set (x # xs)" for x xs
    by (induction xs arbitrary: x) auto
  assume a: "findBestChargingStation sts veh = Some b"
  then obtain x xs where f: "filter (compatibleStation veh) sts = x # xs"
    by (cases "filter (compatibleStation veh) sts") (simp_all add: findBestChargingStation_def)
  with a have "b = foldl (\<lambda>best current. if scoreChargingStation current > scoreChargingStation best
                                      then current else best) x xs"
    by (simp add: findBestChargingStation_def Let_def)
  with pick [of x xs] f have "b \<in> set (filter (compatibleStation veh) sts)" by simp
  then show ?thesis by simp
qed

lemma findOptimalChargingStops_returns:
  "\<exists>cstops. findOptimalChargingStops live (segment # rest) veh soc = Inr cstops"
  by (simp add: findOptimalChargingStops_def)

lemma calculateOptimalRoute_returns:
  "\<exists>plan. calculateOptimalRoute env orig dest veh soc (Some weather) = Inr plan"
  by (simp add: calculateOptimalRoute_def calculateRouteSegments_def findOptimalChargingStops_def Let_def)

subsection \<open>The energy model as a linear form\<close>

lemma calculateEnergyConsumption_eq:
  "calculateEnergyConsumption d g veh weather =
     max 0 ((d * (efficiency veh / 1000 + 0.5 * 1.225 * dragCoefficient veh * frontalArea veh
                    * (80 / 3.6) ^ 2 * (80 / 3.6) / 1000 / 80 * 0.1)
             + g * (mass veh / 1000000)) * getWeatherMultiplier weather veh)"
  by (simp add: calculateEnergyConsumption_def calculateAirResistanceImpact_def Let_def algebra_simps)

subsection \<open>More runs on the concrete inputs\<close>

lemma planSegment_legA_no_compatible:
  "planSegment (\<lambda>request. Some [stationA]) (vehicleA\<lparr>chargingPorts := [\<lparr>port_type = ''GBT''\<rparr>]\<rparr>)
      (initialState (legA 24) 10) (legA 24)
   = \<lparr>stops = [], currentSOC = - 22, currentPosition = (24, 54)\<rparr>"
  by (simp add: planSegment_def getNearbyStations_def findBestChargingStation_def compatibleStation_def
        socNeededFor_def initialState_def legA_def vehicleA_def stationA_eq Let_def)

lemma planSegment_legA_stop:
  "planSegment (\<lambda>request. Some [stationA]) vehicleA (initialState (legA 60) 10) (legA 60)
   = \<lparr>stops = [\<lparr>station = stationA, arrivalSOC = 10, departureSOC = 80, chargingTime = 21, energyAdded = 52.5\<rparr>],
      currentSOC = 0, currentPosition = (24, 54)\<rparr>"
  by (simp add: planSegment_def getNearbyStations_def findBest_stationA
       socNeededFor_def initialState_def Math_round_def legA_def Let_def)
    (simp add: vehicleA_def stationA_eq)

subsection \<open>Invariants of the loop\<close>

lemma planSegment_soc_nonneg:
  assumes found: "currentSOC st - socNeededFor veh segment < 20 \<longrightarrow>
              findBestChargingStation (stations (getNearbyStations live (stationRequest veh st))) veh \<noteq> None"
    and need: "socNeededFor veh segment \<le> 80"
  shows "0 \<le> currentSOC (planSegment live veh st segment)"
proof (cases "currentSOC st - socNeededFor veh segment < 20")
  case True
  with found obtain b where
    "findBestChargingStation (stations (getNearbyStations live (stationRequest veh st))) veh = Some b"
    by auto
  from planSegment_stop [OF True this] need show ?thesis by simp
next
  case False
  from planSegment_not_required [OF False] False show ?thesis by simp
qed

lemma plannerStates_soc_nonneg:
  assumes "stationWheneverRequired live veh st segs"
    and "\<forall>segment\<in>set segs. socNeededFor veh segment \<le> 80"
  shows "\<forall>s\<in>set (plannerStates live veh st segs). 0 \<le> currentSOC s"
  using assms
proof (induction segs arbitrary: st)
  case Nil
  show ?case by simp
next
  case (Cons segment rest)
  from Cons.prems have first: "0 \<le> currentSOC (planSegment live veh st segment)"
    by (intro planSegment_soc_nonneg) simp_all
  from Cons.prems have "\<forall>s\<in>set (plannerStates live veh (planSegment live veh st segment) rest). 0 \<le> currentSOC s"
    by (intro Cons.IH) simp_all
  with first show ?case by (simp add: Let_def)
qed

lemma planSegment_stops_wellformed:
  assumes capacity: "0 < batteryCapacity veh"
    and speed: "0 < maxChargingSpeed veh"
    and power: "\<forall>s\<in>set (stations (getNearbyStations live (stationRequest veh st))). 0 < maxPower s"
    and cur: "0 \<le> currentSOC st" "currentSOC st \<le> 80"
    and need: "0 \<le> socNeededFor veh segment" "socNeededFor veh segment \<le> 80"
    and found: "currentSOC st - socNeededFor veh segment < 20 \<longrightarrow>
              findBestChargingStation (stations (getNearbyStations live (stationRequest veh st))) veh \<noteq> None"
    and old: "\<forall>stop\<in>set (stops st).
                0 \<le> arrivalSOC stop \<and> arrivalSOC stop \<le> 80 \<and> departureSOC stop = 80
              \<and> 0 \<le> chargingTime stop \<and> 0 \<le> energyAdded stop"
  shows "0 \<le> currentSOC (planSegment live veh st segment)
       \<and> currentSOC (planSegment live veh st segment) \<le> 80
       \<and> (\<forall>stop\<in>set (stops (planSegment live veh st segment)).
                0 \<le> arrivalSOC stop \<and> arrivalSOC stop \<le> 80 \<and> departureSOC stop = 80
              \<and> 0 \<le> chargingTime stop \<and> 0 \<le> energyAdded stop)"
proof (cases "currentSOC st - socNeededFor veh segment < 20")
  case False
  from planSegment_not_required [OF False] False cur need old show ?thesis by simp
next
  case True
  with found obtain b where
    b: "findBestChargingStation (stations (getNearbyStations live (stationRequest veh st))) veh = Some b"
    by auto
  let ?energyToAdd = "batteryCapacity veh * (80 - currentSOC st) / 100"
  let ?power = "min (maxPower b) (maxChargingSpeed veh)"
  from findBestChargingStation_Some [OF b] power speed have pw: "0 < ?power" by simp
  from capacity cur have e: "0 \<le> ?energyToAdd" by simp
  have a0: "0 \<le> Math_round (currentSOC st)" using cur by (intro Math_round_nonneg)
  have a80: "Math_round (currentSOC st) \<le> 80"
    using Math_round_le_int [of "currentSOC st" 80] cur by simp
  have t0: "0 \<le> Math_round ((?energyToAdd / ?power) * 60)"
    using e pw by (intro Math_round_nonneg) simp
  have e0: "0 \<le> Math_round (?energyToAdd * 10) / 10"
    using e Math_round_nonneg [of "?energyToAdd * 10"] by simp
  from planSegment_stop [OF True b] a0 a80 t0 e0 need old show ?thesis by simp
qed

lemma foldl_planSegment_wellformed:
  assumes capacity: "0 < batteryCapacity veh"
    and speed: "0 < maxChargingSpeed veh"
    and power: "\<forall>request. \<forall>s\<in>set (stations (getNearbyStations live request)). 0 < maxPower s"
    and cur: "0 \<le> currentSOC st" "currentSOC st \<le> 80"
    and need: "\<forall>segment\<in>set segs. 0 \<le> socNeededFor veh segment \<and> socNeededFor veh segment \<le> 80"
    and found: "stationWheneverRequired live veh st segs"
    and old: "\<forall>stop\<in>set (stops st).
                0 \<le> arrivalSOC stop \<and> arrivalSOC stop \<le> 80 \<and> departureSOC stop = 80
              \<and> 0 \<le> chargingTime stop \<and> 0 \<le> energyAdded stop"
  shows "\<forall>stop\<in>set (stops (foldl (planSegment live veh) st segs)).
                0 \<le> arrivalSOC stop \<and> arrivalSOC stop \<le> 80 \<and> departureSOC stop = 80
              \<and> 0 \<le> chargingTime stop \<and> 0 \<le> energyAdded stop"
  using cur need found old
proof (induction segs arbitrary: st)
  case Nil
  then show ?case by simp
next
  case (Cons segment rest)
  have step: "0 \<le> currentSOC (planSegment live veh st segment)
       \<and> currentSOC (planSegment live veh st segment) \<le> 80
       \<and> (\<forall>stop\<in>set (stops (planSegment live veh st segment)).
                0 \<le> arrivalSOC stop \<and> arrivalSOC stop \<le> 80 \<and> departureSOC stop = 80
              \<and> 0 \<le> chargingTime stop \<and> 0 \<le> energyAdded stop)"
    using capacity speed power Cons.prems by (intro planSegment_stops_wellformed) simp_all
  have "\<forall>stop\<in>set (stops (foldl (planSegment live veh) (planSegment live veh st segment) rest)).
                0 \<le> arrivalSOC stop \<and> arrivalSOC stop \<le> 80 \<and> departureSOC stop = 80
              \<and> 0 \<le> chargingTime stop \<and> 0 \<le> energyAdded stop"
    using step Cons.prems by (intro Cons.IH) simp_all
  then show ?case by simp
qed

subsection \<open>Runs of the planner on the concrete inputs\<close>

lemma trajectory_long_leg:
  "socTrajectory (\<lambda>request. Some [stationA]) [legA 75] vehicleA 80 = [80, - 20]"
  by (simp add: socTrajectory_def planSegment_def getNearbyStations_def findBest_stationA
       socNeededFor_def initialState_def legA_def Let_def)
     (simp add: vehicleA_def)

lemma found_long_leg:
  "stationWheneverRequired (\<lambda>request. Some [stationA]) vehicleA (initialState (legA 75) 80) [legA 75]"
  by (simp add: getNearbyStations_def findBest_stationA)

lemma trajectory_two_legs:
  "socTrajectory (\<lambda>request. Some [stationA]) [legA 30, legA 60] vehicleA 70 = [70, 30, 0]"
  by (simp add: socTrajectory_def planSegment_def getNearbyStations_def findBest_stationA
       socNeededFor_def initialState_def legA_def Let_def)
     (simp add: vehicleA_def)

lemma stops_overfull:
  "findOptimalChargingStops (\<lambda>request. Some [stationA]) [legA 75] vehicleA 100
     = Inr [\<lparr>station = stationA, arrivalSOC = 100, departureSOC = 80, chargingTime = - 6, energyAdded = - 15\<rparr>]"
  by (simp add: findOptimalChargingStops_def planSegment_def getNearbyStations_def findBest_stationA
       socNeededFor_def initialState_def Math_round_def legA_def Let_def)
    (simp add: vehicleA_def stationA_eq)

lemma stops_after_long_leg:
  "findOptimalChargingStops (\<lambda>request. Some [stationA]) [legA 75, legA 75] vehicleA 80
     = Inr [\<lparr>station = stationA, arrivalSOC = 80, departureSOC = 80, chargingTime = 0, energyAdded = 0\<rparr>,
            \<lparr>station = stationA, arrivalSOC = - 20, departureSOC = 80, chargingTime = 30, energyAdded = 75\<rparr>]"
  by (simp add: findOptimalChargingStops_def planSegment_def getNearbyStations_def findBest_stationA
       socNeededFor_def initialState_def Math_round_def legA_def Let_def)
    (simp add: vehicleA_def stationA_eq)

lemma findBest_nil: "findBestChargingStation [] veh = None"
  by (simp add: findBestChargingStation_def)

lemma stops_after_missing_station:
  "findOptimalChargingStops (\<lambda>request. if req_lat request = 25 then Some [] else Some [stationA])
       [legA 30, legA 30] vehicleA 10
     = Inr [\<lparr>station = stationA, arrivalSOC = - 30, departureSOC = 80, chargingTime = 33, energyAdded = 82.5\<rparr>]"
  by (simp add: findOptimalChargingStops_def planSegment_def getNearbyStations_def findBest_stationA
       findBest_nil stationRequest_def
       socNeededFor_def initialState_def Math_round_def legA_def Let_def)
    (simp add: vehicleA_def stationA_eq)

lemma stops_two_legs:
  "findOptimalChargingStops (\<lambda>request. Some [stationA]) [legA 30, legA 60] vehicleA 70
     = Inr [\<lparr>station = stationA, arrivalSOC = 30, departureSOC = 80, chargingTime = 15, energyAdded = 37.5\<rparr>]"
  by (simp add: findOptimalChargingStops_def planSegment_def getNearbyStations_def findBest_stationA
       socNeededFor_def initialState_def Math_round_def legA_def Let_def)
    (simp add: vehicleA_def stationA_eq)

subsection \<open>The clock in the plan\<close>

lemma calculateOptimalRoute_clock:
  "map_sum id (plan_id_update (\<lambda>_. [])) (calculateOptimalRoute (env\<lparr>dateNow := t1\<rparr>) orig dest veh soc weatherData)
   = map_sum id (plan_id_update (\<lambda>_. [])) (calculateOptimalRoute (env\<lparr>dateNow := t2\<rparr>) orig dest veh soc weatherData)"
  by (simp add: calculateOptimalRoute_def Let_def split: option.splits sum.splits)

lemma calculateOptimalRoute_plan_id:
  "map_sum id plan_id (calculateOptimalRoute env orig dest veh soc weatherData)
   = map_sum id (\<lambda>plan. ''route-'' @ toString_nat (dateNow env))
       (calculateOptimalRoute env orig dest veh soc weatherData)"
  by (simp add: calculateOptimalRoute_def Let_def split: option.splits sum.splits)

subsection \<open>The final SOC of a single-segment plan\<close>

lemma foldl_add_sum_list:
  "foldl (\<lambda>sum x. sum + f x) a xs = a + sum_list (map f xs)" for a :: real
  by (induction xs arbitrary: a) simp_all

lemma calculateEnergyConsumption_nonneg: "0 \<le> calculateEnergyConsumption d g veh weather"
  by (simp add: calculateEnergyConsumption_def Let_def)

lemma calculateRouteSegments_single:
  "\<exists>segment. calculateRouteSegments orig dest veh profile weather = [segment]
      \<and> 0 \<le> energyRequired segment"
proof -
  have "0 \<le> Math_round (calculateEnergyConsumption
            (calculateDistance (lat orig) (lng orig) (lat dest) (lng dest))
            (calculateElevationGain profile) veh weather * 10) / 10"
    using calculateEnergyConsumption_nonneg
      Math_round_nonneg [of "calculateEnergyConsumption
            (calculateDistance (lat orig) (lng orig) (lat dest) (lng dest))
            (calculateElevationGain profile) veh weather * 10"]
    by simp
  then show ?thesis by (simp add: calculateRouteSegments_def Let_def)
qed

lemma single_segment_added_le:
  assumes capacity: "1 / 4 \<le> batteryCapacity veh"
    and soc: "soc \<le> 100"
    and energy: "0 \<le> energyRequired segment"
  shows "soc - energyRequired segment / batteryCapacity veh * 100
           + sum_list (map energyAdded (stops (planSegment live veh (initialState segment soc) segment)))
               / batteryCapacity veh * 100 \<le> 100"
proof -
  let ?B = "batteryCapacity veh"
  let ?st = "initialState segment soc"
  from capacity have B: "0 < ?B" by simp
  have need: "0 \<le> energyRequired segment / ?B * 100" using energy B by simp
  have s0: "stops ?st = []" "currentSOC ?st = soc" by (simp_all add: initialState_def)
  show ?thesis
  proof (cases "stops (planSegment live veh ?st segment) = stops ?st")
    case True
    with need soc show ?thesis by (simp add: s0)
  next
    case False
    then have required: "currentSOC ?st - socNeededFor veh segment < 20"
      using planSegment_not_required [of ?st veh segment live]
      by (cases "currentSOC ?st - socNeededFor veh segment < 20") auto
    from False obtain b where
      b: "findBestChargingStation (stations (getNearbyStations live (stationRequest veh ?st))) veh = Some b"
      using planSegment_no_station [of live veh ?st segment]
      by (cases "findBestChargingStation (stations (getNearbyStations live (stationRequest veh ?st))) veh") auto
    let ?toAdd = "?B * (80 - soc) / 100"
    have added: "sum_list (map energyAdded (stops (planSegment live veh ?st segment)))
                   = Math_round (?toAdd * 10) / 10"
      by (simp add: planSegment_stop [OF required b] s0)
    have "Math_round (?toAdd * 10) / 10 \<le> ?toAdd + 1 / 20"
      using Math_round_le [of "?toAdd * 10"] by linarith
    then have "Math_round (?toAdd * 10) / 10 / ?B \<le> (?toAdd + 1 / 20) / ?B"
      by (rule divide_right_mono) (use B in simp)
    also have "(?toAdd + 1 / 20) / ?B = (80 - soc) / 100 + 1 / (20 * ?B)"
      using B by (simp add: field_simps)
    also have "\<dots> \<le> (80 - soc) / 100 + 1 / 5"
    proof -
      from capacity have "5 \<le> 20 * ?B" by simp
      then have "1 / (20 * ?B) \<le> 1 / 5" by (intro divide_left_mono) simp_all
      then show ?thesis by simp
    qed
    finally have k: "Math_round (?toAdd * 10) / 10 / ?B \<le> (80 - soc) / 100 + 1 / 5" .
    define x where "x = Math_round (?toAdd * 10) / 10 / ?B"
    define n where "n = energyRequired segment / ?B * 100"
    from k have "x * 100 \<le> 100 - soc" unfolding x_def [symmetric] by argo
    with need have "soc - n + x * 100 \<le> 100" unfolding n_def [symmetric] by argo
    then show ?thesis unfolding added x_def n_def .
  qed
qed

lemma findOptimalChargingStops_single:
  "findOptimalChargingStops live [segment] veh soc
     = Inr (stops (planSegment live veh (initialState segment soc) segment))"
  by (simp add: findOptimalChargingStops_def)

lemma plan_tiny_battery:
  "map_sum id finalSOC
     (calculateOptimalRoute envA pointA pointA (vehicleA\<lparr>batteryCapacity := 1 / 16\<rparr>) 0 None) = Inr 160"
proof -
  have e: "elevationApi envA = (\<lambda>points. None)" "getCurrentWeather envA = (\<lambda>la lo. Some weatherA)"
    "openChargeMap envA = (\<lambda>request. Some [stationA])" "dateNow envA = 1700000000000"
    by (simp_all add: envA_def)
  have segs: "calculateRouteSegments pointA pointA (vehicleA\<lparr>batteryCapacity := 1 / 16\<rparr>)
                (getElevationProfile (\<lambda>points. None) pointA pointA) weatherA
   = [\<lparr>startLat = 25, startLng = 55, endLat = 25, endLng = 55,
      distance = 0, duration = 0, elevationGain = 0, energyRequired = 0\<rparr>]"
  by (simp add: calculateRouteSegments_def getElevationProfile_def calculateDistance_same
      calculateElevationGain_def calculateEnergyConsumption_def calculateAirResistanceImpact_def
      getWeatherMultiplier_def estimateAverageSpeed_def Math_round_def pointA_def weatherA_def vehicleA_def
      toLowerCase_def Let_def)
  have best: "findBestChargingStation [stationA] (vehicleA\<lparr>batteryCapacity := 1 / 16\<rparr>) = Some stationA"
    by (simp add: findBestChargingStation_def compatibleStation_def stationA_eq vehicleA_def)
  have cstops: "findOptimalChargingStops (\<lambda>request. Some [stationA])
      [\<lparr>startLat = 25, startLng = 55, endLat = 25, endLng = 55,
      distance = 0, duration = 0, elevationGain = 0, energyRequired = 0\<rparr>] (vehicleA\<lparr>batteryCapacity := 1 / 16\<rparr>) 0
   = Inr [\<lparr>station = stationA, arrivalSOC = 0, departureSOC = 80, chargingTime = 0, energyAdded = 1 / 10\<rparr>]"
  by (simp add: findOptimalChargingStops_def planSegment_def getNearbyStations_def best
       socNeededFor_def initialState_def Math_round_def Let_def)
    (simp add: vehicleA_def stationA_eq)
  show ?thesis
    by (simp add: calculateOptimalRoute_def e segs cstops Let_def)
       (simp add: Math_round_def vehicleA_def)
qed

subsection \<open>The haversine distance\<close>

lemma stationService_calculateDistance_eq: "stationService_calculateDistance = calculateDistance"
  by (simp add: fun_eq_iff stationService_calculateDistance_def calculateDistance_def)

lemma Math_atan2_half:
  assumes "1 / 2 \<le> a" "a \<le> 1"
  shows "pi / 2 \<le> 2 * Math_atan2 (sqrt a) (sqrt (1 - a))"
proof (cases "a = 1")
  case True
  then show ?thesis by (simp add: Math_atan2_def)
next
  case False
  with assms have x: "0 < sqrt (1 - a)" by simp
  from assms have "sqrt (1 - a) \<le> sqrt a" by simp
  with x have "1 \<le> sqrt a / sqrt (1 - a)" by simp
  then have "arctan 1 \<le> arctan (sqrt a / sqrt (1 - a))" by (simp only: arctan_le_iff)
  then have "pi / 4 \<le> arctan (sqrt a / sqrt (1 - a))" by (simp add: arctan_one)
  with x show ?thesis by (simp add: Math_atan2_def)
qed

lemma distance_from_south_pole:
  assumes "0 \<le> lat2" "lat2 \<le> 90"
  shows "50 < calculateDistance (- 90) lon1 lat2 lon2"
proof -
  let ?t = "(lat2 - (- 90)) * pi / 180 / 2"
  have c: "cos (- 90 * pi / 180) = 0" by simp
  have lo: "pi / 4 \<le> ?t" and hi: "?t \<le> pi / 2" using assms by simp_all
  from lo hi have "sin (pi / 4) \<le> sin ?t"
    by (intro sin_monotone_2pi_le) (use pi_gt_zero in linarith)+
  then have s: "sqrt 2 / 2 \<le> sin ?t" by (simp add: sin_45)
  have s0: "0 \<le> sqrt 2 / 2" by simp
  from s s0 have s1: "0 \<le> sin ?t" by (rule order_trans [rotated])
  have "(sqrt 2 / 2) * (sqrt 2 / 2) \<le> sin ?t * sin ?t"
    by (rule mult_mono [OF s s s1 s0])
  then have a1: "1 / 2 \<le> sin ?t * sin ?t" by simp
  have a2: "sin ?t * sin ?t \<le> 1"
    using sin_le_one [of ?t] sin_ge_minus_one [of ?t] by (simp add: mult_le_one abs_square_le_1 power2_eq_square[symmetric])
  have d: "calculateDistance (- 90) lon1 lat2 lon2
             = 6371 * (2 * Math_atan2 (sqrt (sin ?t * sin ?t)) (sqrt (1 - sin ?t * sin ?t)))"
    unfolding calculateDistance_def Let_def c by simp
  from Math_atan2_half [OF a1 a2] have "6371 * (pi / 2) \<le> 6371 * (2 * Math_atan2 (sqrt (sin ?t * sin ?t)) (sqrt (1 - sin ?t * sin ?t)))"
    by (intro mult_left_mono) simp_all
  moreover have "50 < 6371 * (pi / 2)" using pi_ge_two by simp
  ultimately show ?thesis unfolding d by linarith
qed

lemma fallbackStations_latitudes:
  "\<forall>s\<in>set fallbackStations. 0 \<le> station_lat s \<and> station_lat s \<le> 90"
  by (simp add: fallbackStations_def)

lemma length_fallbackStations: "length fallbackStations = 9"
  by (simp add: fallbackStations_def)

lemma fallbackStations_power: "\<forall>s\<in>set fallbackStations. 0 < maxPower s"
  by (simp add: fallbackStations_def)

lemma stationService_calculateDistance_same: "stationService_calculateDistance x y x y = 0"
  by (simp add: stationService_calculateDistance_eq calculateDistance_same)

subsection \<open>The elevation profile\<close>

lemma length_interpolateRoutePoints: "length (interpolateRoutePoints orig dest n) = Suc n"
  by (simp add: interpolateRoutePoints_def)

lemma nth_interpolateRoutePoints:
  "i \<le> n \<Longrightarrow> interpolateRoutePoints orig dest n ! i =
     \<lparr>lat = lat orig + (lat dest - lat orig) * (real i / real n),
      lng = lng orig + (lng dest - lng orig) * (real i / real n),
      elevation = None\<rparr>"
  unfolding interpolateRoutePoints_def Let_def
  by (simp only: nth_map_upt length_upt diff_zero less_Suc_eq_le add_0 plus_nat.add_0)

lemma elevationGainLoop_sum:
  "elevationGainLoop totalGain profile =
     totalGain + sum_list (map (\<lambda>(p, q). max 0 (ed_elevation q - ed_elevation p)) (zip profile (tl profile)))"
  by (induction totalGain profile rule: elevationGainLoop.induct) (simp_all add: Let_def max_def)

lemma calculateElevationGain_sum:
  "calculateElevationGain profile =
     Math_round (sum_list (map (\<lambda>(p, q). max 0 (ed_elevation q - ed_elevation p)) (zip profile (tl profile))))"
  by (simp add: calculateElevationGain_def elevationGainLoop_sum)

lemma getElevationProfile_failure:
  "api (interpolateRoutePoints orig dest 10) = None \<Longrightarrow>
   getElevationProfile api orig dest =
     [\<lparr>ed_elevation = 50, ed_distance = 0\<rparr>,
      \<lparr>ed_elevation = 50,
       ed_distance = calculateDistance (lat orig) (lng orig) (lat dest) (lng dest)\<rparr>]"
  by (simp add: getElevationProfile_def Let_def)

lemma getElevationProfile_success:
  "api (interpolateRoutePoints orig dest 10) = Some results \<Longrightarrow>
   map ed_elevation (getElevationProfile api orig dest) =
     map (\<lambda>result. case result of None \<Rightarrow> 0 | Some e \<Rightarrow> e) results"
proof -
  assume ok: "api (interpolateRoutePoints orig dest 10) = Some results"
  let ?f = "\<lambda>result::real option. case result of None \<Rightarrow> 0 | Some e \<Rightarrow> e"
  have fst: "map fst (zip results [0 ..< length results]) = results"
    by (rule map_fst_zip) simp
  have "map ed_elevation (getElevationProfile api orig dest)
          = map (\<lambda>x. ?f (fst x)) (zip results [0 ..< length results])"
    by (simp add: getElevationProfile_def ok Let_def case_prod_unfold comp_def)
  also have "\<dots> = map ?f (map fst (zip results [0 ..< length results]))"
    by (simp only: map_map comp_def)
  also have "\<dots> = map ?f results"
    by (simp only: fst)
  finally show ?thesis .
qed

section \<open>Claims\<close>

text \<open>
  C1, as amended. Let the directory offer an eligible station at every segment where the
  buffer check asks for a stop, and let no segment need more than 80 % of the battery (the
  level every stop charges to). Then, from an initial SOC in \<open>[0, 100]\<close>, the running SOC
  is never negative at a segment boundary.
\<close>

theorem C1_soc_never_negative_when_reachable:
  assumes segs: "segs = segment0 # rest"
    and soc: "0 \<le> soc" "soc \<le> 100"
    and capacity: "0 < batteryCapacity veh"
    and found: "stationWheneverRequired live veh (initialState segment0 soc) segs"
    and reach: "\<forall>segment\<in>set segs. socNeededFor veh segment \<le> 80"
  shows "\<forall>x\<in>set (socTrajectory live segs veh soc). 0 \<le> x"
proof -
  from plannerStates_soc_nonneg [OF found reach] soc(1)
  show ?thesis by (simp add: socTrajectory_def segs)
qed

text \<open>
  Without the bound on the segments the claim fails: from 80 %, a leg that needs the whole
  battery gets a stop at an eligible station, departs at 80 % and ends at -20 %.
\<close>

theorem C1_counterexample:
  "stationWheneverRequired (\<lambda>request. Some [stationA]) vehicleA (initialState (legA 75) 80) [legA 75]
   \<and> socTrajectory (\<lambda>request. Some [stationA]) [legA 75] vehicleA 80 = [80, - 20]
   \<and> \<not> list_all (\<lambda>x. 0 \<le> x) (socTrajectory (\<lambda>request. Some [stationA]) [legA 75] vehicleA 80)"
  using found_long_leg by (simp add: trajectory_long_leg)

theorem C1_witness:
  "(0::real) \<le> 70 \<and> (70::real) \<le> 100 \<and> 0 < batteryCapacity vehicleA
   \<and> stationWheneverRequired (\<lambda>request. Some [stationA]) vehicleA (initialState (legA 30) 70) [legA 30, legA 60]
   \<and> socNeededFor vehicleA (legA 30) = 40 \<and> socNeededFor vehicleA (legA 60) = 80
   \<and> socTrajectory (\<lambda>request. Some [stationA]) [legA 30, legA 60] vehicleA 70 = [70, 30, 0]
   \<and> list_all (\<lambda>x. 0 \<le> x) (socTrajectory (\<lambda>request. Some [stationA]) [legA 30, legA 60] vehicleA 70)"
proof -
  let ?live = "\<lambda>request::PublicChargingStationsRequest. Some [stationA]"
  have capacity: "0 < batteryCapacity vehicleA" by (simp add: vehicleA_def)
  have n1: "socNeededFor vehicleA (legA 30) = 40" and n2: "socNeededFor vehicleA (legA 60) = 80"
    by (simp_all add: socNeededFor_def legA_def vehicleA_def)
  have found: "stationWheneverRequired ?live vehicleA (initialState (legA 30) 70) [legA 30, legA 60]"
    by (simp add: getNearbyStations_def findBest_stationA)
  have reach: "\<forall>segment\<in>set [legA 30, legA 60]. socNeededFor vehicleA segment \<le> 80"
    by (simp add: n1 n2)
  have "\<forall>x\<in>set (socTrajectory ?live [legA 30, legA 60] vehicleA 70). 0 \<le> x"
    by (rule C1_soc_never_negative_when_reachable [OF refl _ _ capacity found reach]) simp_all
  then have "list_all (\<lambda>x. 0 \<le> x) (socTrajectory ?live [legA 30, legA 60] vehicleA 70)"
    by (simp only: list_all_iff)
  with capacity n1 n2 found trajectory_two_legs show ?thesis by simp
qed

text \<open>
  C2. When the buffer check of an iteration asks for a stop (\<open>currentSOC - socNeeded < 20\<close>)
  and no station that the directory offers is available with a connector of the vehicle,
  the iteration inserts no stop, still subtracts the segment's need from the running SOC and
  moves on to the end of the segment; the SOC it leaves is below the 20 % threshold (and, as
  the witness shows, can be negative). Nothing is raised: the planner returns its list of
  stops for every non-empty list of segments, and the route service returns a plan whenever
  it has a weather sample.
\<close>

theorem C2_no_station_no_stop:
  assumes required: "currentSOC st - socNeededFor veh segment < 20"
    and none: "\<forall>s\<in>set (stations (getNearbyStations live (stationRequest veh st))).
                 \<not> (isAvailable s \<and> set (connectorTypes s) \<inter> port_type ` set (chargingPorts veh) \<noteq> {})"
  shows "stops (planSegment live veh st segment) = stops st
       \<and> currentSOC (planSegment live veh st segment) = currentSOC st - socNeededFor veh segment
       \<and> currentSOC (planSegment live veh st segment) < 20
       \<and> currentPosition (planSegment live veh st segment) = (endLat segment, endLng segment)
       \<and> (\<exists>cstops. findOptimalChargingStops live (segment # rest) veh soc = Inr cstops)
       \<and> (\<exists>plan. calculateOptimalRoute env orig dest veh soc (Some weather) = Inr plan)"
proof -
  from none have "findBestChargingStation (stations (getNearbyStations live (stationRequest veh st))) veh = None"
    by (simp add: findBestChargingStation_None_iff compatibleStation_iff)
  then have "planSegment live veh st segment =
     st\<lparr>currentPosition := (endLat segment, endLng segment),
        currentSOC := currentSOC st - socNeededFor veh segment\<rparr>"
    by (rule planSegment_no_station)
  with required findOptimalChargingStops_returns [of live segment rest veh soc]
    calculateOptimalRoute_returns [of env orig dest veh soc weather]
  show ?thesis by simp
qed

theorem C2_witness:
  "currentSOC (initialState (legA 24) 10)
      - socNeededFor (vehicleA\<lparr>chargingPorts := [\<lparr>port_type = ''GBT''\<rparr>]\<rparr>) (legA 24) < 20
   \<and> stations (getNearbyStations (\<lambda>request. Some [stationA])
        (stationRequest (vehicleA\<lparr>chargingPorts := [\<lparr>port_type = ''GBT''\<rparr>]\<rparr>) (initialState (legA 24) 10)))
       = [stationA]
   \<and> set (connectorTypes stationA) \<inter> {''GBT''} = {}
   \<and> planSegment (\<lambda>request. Some [stationA]) (vehicleA\<lparr>chargingPorts := [\<lparr>port_type = ''GBT''\<rparr>]\<rparr>)
        (initialState (legA 24) 10) (legA 24)
       = \<lparr>stops = [], currentSOC = - 22, currentPosition = (24, 54)\<rparr>
   \<and> findOptimalChargingStops (\<lambda>request. Some [stationA]) [legA 24]
        (vehicleA\<lparr>chargingPorts := [\<lparr>port_type = ''GBT''\<rparr>]\<rparr>) 10 = Inr []
   \<and> socTrajectory (\<lambda>request. Some [stationA]) [legA 24]
        (vehicleA\<lparr>chargingPorts := [\<lparr>port_type = ''GBT''\<rparr>]\<rparr>) 10 = [10, - 22]"
proof -
  let ?veh = "vehicleA\<lparr>chargingPorts := [\<lparr>port_type = ''GBT''\<rparr>]\<rparr>"
  let ?live = "\<lambda>request::PublicChargingStationsRequest. Some [stationA]"
  have required: "currentSOC (initialState (legA 24) 10) - socNeededFor ?veh (legA 24) < 20"
    by (simp add: initialState_def socNeededFor_def legA_def vehicleA_def)
  have offered: "stations (getNearbyStations ?live (stationRequest ?veh (initialState (legA 24) 10))) = [stationA]"
    by (simp add: getNearbyStations_def)
  have disjoint: "set (connectorTypes stationA) \<inter> {''GBT''} = {}"
    by (simp add: stationA_eq)
  have none: "\<forall>s\<in>set (stations (getNearbyStations ?live (stationRequest ?veh (initialState (legA 24) 10)))).
                 \<not> (isAvailable s \<and> set (connectorTypes s) \<inter> port_type ` set (chargingPorts ?veh) \<noteq> {})"
    using disjoint by (simp add: offered)
  note inst = C2_no_station_no_stop [OF required none, of "[]" 10 envA pointA pointA weatherA]
  have run: "findOptimalChargingStops ?live [legA 24] ?veh 10 = Inr []"
    using inst by (simp add: findOptimalChargingStops_def initialState_def)
  have traj: "socTrajectory ?live [legA 24] ?veh 10 = [10, - 22]"
    by (simp add: socTrajectory_def planSegment_legA_no_compatible)
  show ?thesis
    using required offered disjoint run traj planSegment_legA_no_compatible by simp
qed

text \<open>
  C3, as amended. For an initial SOC in \<open>[0, 100]\<close> and a battery capacity of at least
  0.25 kWh, the \<open>finalSOC\<close> of every returned plan is the rounding of
  \<open>clamp (initialSOC - \<Sum> segment energy % + \<Sum> stop energyAdded %) 0 100\<close>, the sums
  taken over the plan's own segments and stops, and lies in \<open>[0, 100]\<close>. The segment
  energies of a plan are not negative by construction.
\<close>

theorem C3_final_soc_clamped:
  assumes result: "calculateOptimalRoute env orig dest veh soc weatherData = Inr plan"
    and soc: "0 \<le> soc" "soc \<le> 100"
    and capacity: "1 / 4 \<le> batteryCapacity veh"
  shows "finalSOC plan =
           Math_round (max 0 (min 100
             (soc - sum_list (map energyRequired (segments plan)) / batteryCapacity veh * 100
                  + sum_list (map energyAdded (chargingStops plan)) / batteryCapacity veh * 100)))
       \<and> 0 \<le> finalSOC plan \<and> finalSOC plan \<le> 100"
proof -
  let ?raw = "soc - sum_list (map energyRequired (segments plan)) / batteryCapacity veh * 100
                  + sum_list (map energyAdded (chargingStops plan)) / batteryCapacity veh * 100"
  from calculateOptimalRoute_Inr [OF result] obtain weather where
    s: "segments plan = calculateRouteSegments orig dest veh
                          (getElevationProfile (elevationApi env) orig dest) weather"
    and c: "findOptimalChargingStops (openChargeMap env) (segments plan) veh soc = Inr (chargingStops plan)"
    and f: "finalSOC plan =
             Math_round (max 0 (soc - (foldl (\<lambda>sum seg. sum + energyRequired seg) 0 (segments plan)
                                         / batteryCapacity veh * 100)
                                    + (foldl (\<lambda>sum stop. sum + energyAdded stop) 0 (chargingStops plan)
                                         / batteryCapacity veh * 100)))"
    by blast
  from s calculateRouteSegments_single [of orig dest veh "getElevationProfile (elevationApi env) orig dest" weather]
  obtain segment where seg: "segments plan = [segment]" and energy: "0 \<le> energyRequired segment"
    by auto
  from c have cs: "chargingStops plan = stops (planSegment (openChargeMap env) veh (initialState segment soc) segment)"
    by (simp add: seg findOptimalChargingStops_single)
  have le: "?raw \<le> 100"
    using single_segment_added_le [OF capacity soc(2) energy, of "openChargeMap env"]
    by (simp add: seg cs)
  have final: "finalSOC plan = Math_round (max 0 ?raw)"
    by (simp add: f foldl_add_sum_list)
  from le have eq: "max 0 (min 100 ?raw) = max 0 ?raw" by simp
  have lo: "0 \<le> Math_round (max 0 ?raw)" by (intro Math_round_nonneg) simp
  have hi: "Math_round (max 0 ?raw) \<le> 100"
    using Math_round_le_int [of "max 0 ?raw" 100] le by simp
  from final eq lo hi show ?thesis by simp
qed

text \<open>
  The program clamps at 0 only. With a capacity of 1/16 kWh the 0.05 kWh to add are rounded
  to 0.1 kWh, which is 160 % of the battery: the final SOC is 160.
\<close>

theorem C3_counterexample:
  "map_sum id finalSOC
     (calculateOptimalRoute envA pointA pointA (vehicleA\<lparr>batteryCapacity := 1 / 16\<rparr>) 0 None) = Inr 160
   \<and> (0::real) < batteryCapacity (vehicleA\<lparr>batteryCapacity := 1 / 16\<rparr>)
   \<and> \<not> (160::real) \<le> 100"
  using plan_tiny_battery by simp

theorem C3_witness:
  "(0::real) \<le> 10 \<and> (10::real) \<le> 100 \<and> 1 / 4 \<le> batteryCapacity vehicleA
   \<and> map_sum id
        (\<lambda>plan. (finalSOC plan,
                 Math_round (max 0 (min 100
                   (10 - sum_list (map energyRequired (segments plan)) / batteryCapacity vehicleA * 100
                       + sum_list (map energyAdded (chargingStops plan)) / batteryCapacity vehicleA * 100))),
                 0 \<le> finalSOC plan \<and> finalSOC plan \<le> 100))
        (calculateOptimalRoute envA pointA pointA vehicleA 10 None) = Inr (80, 80, True)"
proof -
  obtain plan where p: "calculateOptimalRoute envA pointA pointA vehicleA 10 None = Inr plan"
    and f: "finalSOC plan = 80"
    using planA by simp
  have capacity: "1 / 4 \<le> batteryCapacity vehicleA" by (simp add: vehicleA_def)
  from C3_final_soc_clamped [OF p _ _ capacity] f capacity
  show ?thesis by (simp add: p)
qed

text \<open>
  C4, as amended. Two requests with the same inputs and the same answers of the elevation,
  weather and station services yield the same result in every field but \<open>id\<close>, whatever
  the clock reads; the \<open>id\<close> of a plan is \<open>route-\<close> followed by the clock's reading.
\<close>

theorem C4_same_plan_up_to_clock:
  "map_sum id (plan_id_update (\<lambda>_. [])) (calculateOptimalRoute (env\<lparr>dateNow := t1\<rparr>) orig dest veh soc weatherData)
   = map_sum id (plan_id_update (\<lambda>_. [])) (calculateOptimalRoute (env\<lparr>dateNow := t2\<rparr>) orig dest veh soc weatherData)
   \<and> map_sum id plan_id (calculateOptimalRoute env orig dest veh soc weatherData)
   = map_sum id (\<lambda>plan. ''route-'' @ toString_nat (dateNow env))
       (calculateOptimalRoute env orig dest veh soc weatherData)"
  using calculateOptimalRoute_clock calculateOptimalRoute_plan_id by blast

text \<open>
  The same request, with the same answers of the three services, at the clock readings 1 and
  2: the two results differ.
\<close>

theorem C4_counterexample:
  "calculateOptimalRoute (envA\<lparr>dateNow := 1\<rparr>) pointA pointA vehicleA 10 None
   \<noteq> calculateOptimalRoute (envA\<lparr>dateNow := 2\<rparr>) pointA pointA vehicleA 10 None"
proof
  assume eq: "calculateOptimalRoute (envA\<lparr>dateNow := 1\<rparr>) pointA pointA vehicleA 10 None
            = calculateOptimalRoute (envA\<lparr>dateNow := 2\<rparr>) pointA pointA vehicleA 10 None"
  have r: "\<exists>plan. calculateOptimalRoute (envA\<lparr>dateNow := t\<rparr>) pointA pointA vehicleA 10 None = Inr plan" for t
    by (simp add: calculateOptimalRoute_def calculateRouteSegments_def findOptimalChargingStops_def
          envA_def Let_def)
  from r [of 1] obtain plan where p: "calculateOptimalRoute (envA\<lparr>dateNow := 1\<rparr>) pointA pointA vehicleA 10 None = Inr plan"
    by blast
  from calculateOptimalRoute_plan_id [of "envA\<lparr>dateNow := 1\<rparr>" pointA pointA vehicleA 10 None] p
  have one: "plan_id plan = ''route-1''" by (simp add: toString_nat.simps)
  from eq [symmetric] p have q: "calculateOptimalRoute (envA\<lparr>dateNow := 2\<rparr>) pointA pointA vehicleA 10 None = Inr plan"
    by (rule trans)
  from calculateOptimalRoute_plan_id [of "envA\<lparr>dateNow := 2\<rparr>" pointA pointA vehicleA 10 None]
  have two: "plan_id plan = ''route-2''" unfolding q by (simp add: toString_nat.simps)
  from one two show False by simp
qed

text \<open>
  C5, as amended. Let the initial SOC lie in \<open>[0, 80]\<close>, let every segment have a
  non-negative energy that is at most 80 % of a positive battery capacity, let the directory
  offer an eligible station at every segment where the buffer check asks for a stop, and
  let the charging powers be positive. Then every stop of the planner has its arrival SOC in
  \<open>[0, 100]\<close>, its departure SOC in \<open>[0, 100]\<close> and not below the arrival SOC, and a
  non-negative charging time and energy.
\<close>

theorem C5_stops_wellformed_when_reachable:
  assumes result: "findOptimalChargingStops live segs veh soc = Inr cstops"
    and soc: "0 \<le> soc" "soc \<le> 80"
    and capacity: "0 < batteryCapacity veh"
    and speed: "0 < maxChargingSpeed veh"
    and power: "\<forall>request. \<forall>s\<in>set (stations (getNearbyStations live request)). 0 < maxPower s"
    and need: "\<forall>segment\<in>set segs. 0 \<le> energyRequired segment \<and> socNeededFor veh segment \<le> 80"
    and found: "stationWheneverRequired live veh (initialState (hd segs) soc) segs"
  shows "\<forall>stop\<in>set cstops.
           0 \<le> arrivalSOC stop \<and> arrivalSOC stop \<le> 100
         \<and> 0 \<le> departureSOC stop \<and> departureSOC stop \<le> 100
         \<and> arrivalSOC stop \<le> departureSOC stop
         \<and> 0 \<le> chargingTime stop \<and> 0 \<le> energyAdded stop"
proof -
  from result obtain segment0 rest where segs: "segs = segment0 # rest"
    by (cases segs) (simp_all add: findOptimalChargingStops_def)
  from result segs have c: "cstops = stops (foldl (planSegment live veh) (initialState segment0 soc) segs)"
    by (simp add: findOptimalChargingStops_def)
  have need': "\<forall>segment\<in>set segs. 0 \<le> socNeededFor veh segment \<and> socNeededFor veh segment \<le> 80"
    using need capacity by (simp add: socNeededFor_def)
  have "\<forall>stop\<in>set (stops (foldl (planSegment live veh) (initialState segment0 soc) segs)).
                0 \<le> arrivalSOC stop \<and> arrivalSOC stop \<le> 80 \<and> departureSOC stop = 80
              \<and> 0 \<le> chargingTime stop \<and> 0 \<le> energyAdded stop"
    using soc found segs
    by (intro foldl_planSegment_wellformed [OF capacity speed power _ _ need']) (simp_all add: initialState_def)
  with c show ?thesis by fastforce
qed


text \<open>
  Three runs outside these conditions: an initial SOC of 100 % before a leg that needs the
  whole battery (the stop "charges" from 100 down to 80, with negative time and energy); two
  such legs from 80 % (the second stop is reached at -20 %); and a first leg where no station
  is offered (the next stop is reached at -30 %).
\<close>

theorem C5_counterexample:
  "findOptimalChargingStops (\<lambda>request. Some [stationA]) [legA 75] vehicleA 100
     = Inr [\<lparr>station = stationA, arrivalSOC = 100, departureSOC = 80, chargingTime = - 6, energyAdded = - 15\<rparr>]
   \<and> findOptimalChargingStops (\<lambda>request. Some [stationA]) [legA 75, legA 75] vehicleA 80
     = Inr [\<lparr>station = stationA, arrivalSOC = 80, departureSOC = 80, chargingTime = 0, energyAdded = 0\<rparr>,
            \<lparr>station = stationA, arrivalSOC = - 20, departureSOC = 80, chargingTime = 30, energyAdded = 75\<rparr>]
   \<and> findOptimalChargingStops (\<lambda>request. if req_lat request = 25 then Some [] else Some [stationA])
       [legA 30, legA 30] vehicleA 10
     = Inr [\<lparr>station = stationA, arrivalSOC = - 30, departureSOC = 80, chargingTime = 33, energyAdded = 82.5\<rparr>]"
  using stops_overfull stops_after_long_leg stops_after_missing_station by simp

theorem C5_witness:
  "findOptimalChargingStops (\<lambda>request. Some [stationA]) [legA 30, legA 60] vehicleA 70
     = Inr [\<lparr>station = stationA, arrivalSOC = 30, departureSOC = 80, chargingTime = 15, energyAdded = 37.5\<rparr>]
   \<and> (0::real) \<le> 70 \<and> (70::real) \<le> 80
   \<and> 0 < batteryCapacity vehicleA \<and> 0 < maxChargingSpeed vehicleA \<and> 0 < maxPower stationA
   \<and> energyRequired (legA 30) = 30 \<and> socNeededFor vehicleA (legA 30) = 40
   \<and> energyRequired (legA 60) = 60 \<and> socNeededFor vehicleA (legA 60) = 80
   \<and> stationWheneverRequired (\<lambda>request. Some [stationA]) vehicleA (initialState (legA 30) 70) [legA 30, legA 60]
   \<and> list_all (\<lambda>stop. 0 \<le> arrivalSOC stop \<and> arrivalSOC stop \<le> 100
         \<and> 0 \<le> departureSOC stop \<and> departureSOC stop \<le> 100
         \<and> arrivalSOC stop \<le> departureSOC stop
         \<and> 0 \<le> chargingTime stop \<and> 0 \<le> energyAdded stop)
       [\<lparr>station = stationA, arrivalSOC = 30, departureSOC = 80, chargingTime = 15, energyAdded = 37.5\<rparr>]"
proof -
  let ?live = "\<lambda>request::PublicChargingStationsRequest. Some [stationA]"
  let ?cstops = "[\<lparr>station = stationA, arrivalSOC = 30, departureSOC = 80, chargingTime = 15, energyAdded = 37.5\<rparr>]"
  have capacity: "0 < batteryCapacity vehicleA" and speed: "0 < maxChargingSpeed vehicleA"
    by (simp_all add: vehicleA_def)
  have pw: "0 < maxPower stationA" by (simp add: stationA_eq)
  have power: "\<forall>request. \<forall>s\<in>set (stations (getNearbyStations ?live request)). 0 < maxPower s"
    using pw by (simp add: getNearbyStations_def)
  have e: "energyRequired (legA 30) = 30" "energyRequired (legA 60) = 60"
    by (simp_all add: legA_def)
  have n: "socNeededFor vehicleA (legA 30) = 40" "socNeededFor vehicleA (legA 60) = 80"
    by (simp_all add: socNeededFor_def legA_def vehicleA_def)
  have need: "\<forall>segment\<in>set [legA 30, legA 60]. 0 \<le> energyRequired segment \<and> socNeededFor vehicleA segment \<le> 80"
    by (simp add: e n)
  have found: "stationWheneverRequired ?live vehicleA (initialState (hd [legA 30, legA 60]) 70) [legA 30, legA 60]"
    by (simp add: getNearbyStations_def findBest_stationA)
  have "\<forall>stop\<in>set ?cstops.
           0 \<le> arrivalSOC stop \<and> arrivalSOC stop \<le> 100
         \<and> 0 \<le> departureSOC stop \<and> departureSOC stop \<le> 100
         \<and> arrivalSOC stop \<le> departureSOC stop
         \<and> 0 \<le> chargingTime stop \<and> 0 \<le> energyAdded stop"
    by (rule C5_stops_wellformed_when_reachable [OF stops_two_legs _ _ capacity speed power need found]) simp_all
  then have "list_all (\<lambda>stop. 0 \<le> arrivalSOC stop \<and> arrivalSOC stop \<le> 100
         \<and> 0 \<le> departureSOC stop \<and> departureSOC stop \<le> 100
         \<and> arrivalSOC stop \<le> departureSOC stop
         \<and> 0 \<le> chargingTime stop \<and> 0 \<le> energyAdded stop) ?cstops"
    by (simp only: list_all_iff)
  moreover from found have "stationWheneverRequired ?live vehicleA (initialState (legA 30) 70) [legA 30, legA 60]"
    by (simp only: list.sel)
  ultimately show ?thesis
    using stops_two_legs capacity speed pw e n by (simp only: simp_thms) simp
qed

text \<open>
  C6. Every iteration that inserts a stop appends exactly one, at the best station, with
  departure SOC 80; the running SOC leaves the iteration at 80 minus the segment's need. With
  \<open>energyToAdd = batteryCapacity * (80 - currentSOC) / 100\<close> and the charging power
  \<open>min (maxPower station) (maxChargingSpeed vehicle)\<close>, the recorded \<open>energyAdded\<close> is
  within 0.05 kWh of \<open>energyToAdd\<close> and the recorded \<open>chargingTime\<close> within half a minute
  of \<open>energyToAdd / power * 60\<close>, hence within \<open>1/2 + 3 / power\<close> minutes of
  \<open>energyAdded / power * 60\<close>. The charging powers are assumed positive.
\<close>

theorem C6_charging_arithmetic:
  assumes inserted: "stops (planSegment live veh st segment) \<noteq> stops st"
    and power: "0 < maxChargingSpeed veh"
               "\<forall>s\<in>set (stations (getNearbyStations live (stationRequest veh st))). 0 < maxPower s"
  shows "\<exists>b stop.
           findBestChargingStation (stations (getNearbyStations live (stationRequest veh st))) veh = Some b
         \<and> stops (planSegment live veh st segment) = stops st @ [stop]
         \<and> station stop = b
         \<and> departureSOC stop = 80
         \<and> currentSOC (planSegment live veh st segment) = 80 - socNeededFor veh segment
         \<and> 0 < min (maxPower b) (maxChargingSpeed veh)
         \<and> \<bar>energyAdded stop - batteryCapacity veh * (80 - currentSOC st) / 100\<bar> \<le> 1 / 20
         \<and> \<bar>chargingTime stop
              - batteryCapacity veh * (80 - currentSOC st) / 100 / min (maxPower b) (maxChargingSpeed veh) * 60\<bar>
             \<le> 1 / 2
         \<and> \<bar>chargingTime stop - energyAdded stop / min (maxPower b) (maxChargingSpeed veh) * 60\<bar>
             \<le> 1 / 2 + 3 / min (maxPower b) (maxChargingSpeed veh)"
proof -
  let ?found = "findBestChargingStation (stations (getNearbyStations live (stationRequest veh st))) veh"
  from inserted have required: "currentSOC st - socNeededFor veh segment < 20"
    using planSegment_not_required [of st veh segment live] by (cases "currentSOC st - socNeededFor veh segment < 20") auto
  from inserted obtain b where b: "?found = Some b"
    using planSegment_no_station [of live veh st segment] by (cases ?found) auto
  let ?energyToAdd = "batteryCapacity veh * (80 - currentSOC st) / 100"
  let ?power = "min (maxPower b) (maxChargingSpeed veh)"
  let ?stop = "\<lparr>station = b,
              arrivalSOC = Math_round (currentSOC st),
              departureSOC = 80,
              chargingTime = Math_round ((?energyToAdd / ?power) * 60),
              energyAdded = Math_round (?energyToAdd * 10) / 10\<rparr>"
  have step: "planSegment live veh st segment =
     st\<lparr>stops := stops st @ [?stop],
        currentPosition := (endLat segment, endLng segment),
        currentSOC := 80 - socNeededFor veh segment\<rparr>"
    by (rule planSegment_stop [OF required b])
  from findBestChargingStation_Some [OF b] power have pw: "0 < ?power" by simp
  have "\<bar>Math_round (?energyToAdd * 10) / 10 - ?energyToAdd\<bar> \<le> 1 / 20"
    using Math_round_le [of "?energyToAdd * 10"] Math_round_gt [of "?energyToAdd * 10"] by linarith
  then have e: "\<bar>energyAdded ?stop - ?energyToAdd\<bar> \<le> 1 / 20"
    by (simp only: ChargingStop.simps)
  have "\<bar>Math_round ((?energyToAdd / ?power) * 60) - ?energyToAdd / ?power * 60\<bar> \<le> 1 / 2"
    by (rule Math_round_abs)
  then have t: "\<bar>chargingTime ?stop - ?energyToAdd / ?power * 60\<bar> \<le> 1 / 2"
    by (simp only: ChargingStop.simps)
  have "\<bar>chargingTime ?stop - energyAdded ?stop / ?power * 60\<bar> \<le> 1 / 2 + 3 / ?power"
    using pw e t by (rule charging_time_tolerance)
  note both = this
  have "findBestChargingStation (stations (getNearbyStations live (stationRequest veh st))) veh = Some b
         \<and> stops (planSegment live veh st segment) = stops st @ [?stop]
         \<and> station ?stop = b
         \<and> departureSOC ?stop = 80
         \<and> currentSOC (planSegment live veh st segment) = 80 - socNeededFor veh segment
         \<and> 0 < ?power"
    using b pw by (simp add: step)
  with e t both show ?thesis by blast
qed

theorem C6_witness:
  "stops (planSegment (\<lambda>request. Some [stationA]) vehicleA (initialState (legA 60) 10) (legA 60))
     = [\<lparr>station = stationA, arrivalSOC = 10, departureSOC = 80, chargingTime = 21, energyAdded = 52.5\<rparr>]
   \<and> stops (initialState (legA 60) 10) = []
   \<and> 0 < maxChargingSpeed vehicleA
   \<and> stations (getNearbyStations (\<lambda>request. Some [stationA]) (stationRequest vehicleA (initialState (legA 60) 10)))
       = [stationA]
   \<and> 0 < maxPower stationA
   \<and> (\<exists>b stop.
           findBestChargingStation (stations (getNearbyStations (\<lambda>request. Some [stationA])
              (stationRequest vehicleA (initialState (legA 60) 10)))) vehicleA = Some b
         \<and> stops (planSegment (\<lambda>request. Some [stationA]) vehicleA (initialState (legA 60) 10) (legA 60))
             = stops (initialState (legA 60) 10) @ [stop]
         \<and> station stop = b
         \<and> departureSOC stop = 80
         \<and> currentSOC (planSegment (\<lambda>request. Some [stationA]) vehicleA (initialState (legA 60) 10) (legA 60))
             = 80 - socNeededFor vehicleA (legA 60)
         \<and> 0 < min (maxPower b) (maxChargingSpeed vehicleA)
         \<and> \<bar>energyAdded stop - batteryCapacity vehicleA * (80 - currentSOC (initialState (legA 60) 10)) / 100\<bar>
             \<le> 1 / 20
         \<and> \<bar>chargingTime stop
              - batteryCapacity vehicleA * (80 - currentSOC (initialState (legA 60) 10)) / 100
                  / min (maxPower b) (maxChargingSpeed vehicleA) * 60\<bar>
             \<le> 1 / 2
         \<and> \<bar>chargingTime stop - energyAdded stop / min (maxPower b) (maxChargingSpeed vehicleA) * 60\<bar>
             \<le> 1 / 2 + 3 / min (maxPower b) (maxChargingSpeed vehicleA))"
proof -
  let ?live = "\<lambda>request::PublicChargingStationsRequest. Some [stationA]"
  let ?st = "initialState (legA 60) 10"
  have s0: "stops ?st = []" by (simp add: initialState_def)
  have inserted: "stops (planSegment ?live vehicleA ?st (legA 60)) \<noteq> stops ?st"
    by (simp add: planSegment_legA_stop s0)
  have speed: "0 < maxChargingSpeed vehicleA" by (simp add: vehicleA_def)
  have offered: "stations (getNearbyStations ?live (stationRequest vehicleA ?st)) = [stationA]"
    by (simp add: getNearbyStations_def)
  have pw: "0 < maxPower stationA" by (simp add: stationA_eq)
  have power: "\<forall>s\<in>set (stations (getNearbyStations ?live (stationRequest vehicleA ?st))). 0 < maxPower s"
    using pw by (simp add: offered)
  from C6_charging_arithmetic [OF inserted speed power] s0 speed offered pw
  show ?thesis by (simp only: planSegment_legA_stop PlannerState.simps simp_thms)
qed

text \<open>
  C7, as amended. When the live source is unreachable, \<open>getNearbyStations\<close> answers with
  exactly those of the nine fallback stations whose haversine distance to the query point
  (Earth radius 6371 km, the formula of the route service) is at most the radius, in the
  order of the list; the answer depends on the request only. A query at the coordinates of
  a fallback station, with a radius that is not negative, has that station in its answer.
\<close>

theorem C7_fallback_within_radius:
  assumes unreachable: "live request = None"
  shows "stations (getNearbyStations live request)
           = filter (\<lambda>s. calculateDistance (req_lat request) (req_lng request) (station_lat s) (station_lng s)
                           \<le> radiusKm request)
                    fallbackStations
       \<and> length fallbackStations = 9
       \<and> (\<forall>s\<in>set fallbackStations.
             0 \<le> radiusKm request \<and> req_lat request = station_lat s \<and> req_lng request = station_lng s
             \<longrightarrow> s \<in> set (stations (getNearbyStations live request)))"
proof -
  have f: "stations (getNearbyStations live request)
           = filter (\<lambda>s. calculateDistance (req_lat request) (req_lng request) (station_lat s) (station_lng s)
                           \<le> radiusKm request)
                    fallbackStations"
    by (simp add: getNearbyStations_def unreachable getFallbackStations_def
          stationService_calculateDistance_eq Let_def)
  have "\<forall>s\<in>set fallbackStations.
             0 \<le> radiusKm request \<and> req_lat request = station_lat s \<and> req_lng request = station_lng s
             \<longrightarrow> s \<in> set (stations (getNearbyStations live request))"
    unfolding f by (simp add: calculateDistance_same)
  with f length_fallbackStations show ?thesis by blast
qed

text \<open>
  The answer can be empty: no fallback station lies within 50 km of the South Pole.
\<close>

theorem C7_counterexample:
  "stations (getNearbyStations (\<lambda>request. None)
      \<lparr>req_lat = - 90, req_lng = 0, radiusKm = 50, req_connectorTypes = [''CCS2'']\<rparr>) = []"
proof -
  have "\<forall>s\<in>set fallbackStations.
          \<not> stationService_calculateDistance (- 90) 0 (station_lat s) (station_lng s) \<le> 50"
  proof
    fix s
    assume "s \<in> set fallbackStations"
    with fallbackStations_latitudes have "0 \<le> station_lat s" "station_lat s \<le> 90" by auto
    then have "50 < calculateDistance (- 90) 0 (station_lat s) (station_lng s)"
      by (rule distance_from_south_pole)
    then show "\<not> stationService_calculateDistance (- 90) 0 (station_lat s) (station_lng s) \<le> 50"
      by (simp add: stationService_calculateDistance_eq)
  qed
  then show ?thesis
    by (simp add: getNearbyStations_def getFallbackStations_def filter_empty_conv Let_def)
qed

theorem C7_witness:
  "(\<lambda>request::PublicChargingStationsRequest. None :: ChargingStation list option)
      \<lparr>req_lat = station_lat stationA, req_lng = station_lng stationA, radiusKm = 50,
        req_connectorTypes = [''CCS2'']\<rparr> = None
   \<and> stationA \<in> set fallbackStations
   \<and> (0::real) \<le> 50
   \<and> stationA \<in> set (stations (getNearbyStations (\<lambda>request. None)
         \<lparr>req_lat = station_lat stationA, req_lng = station_lng stationA, radiusKm = 50,
           req_connectorTypes = [''CCS2'']\<rparr>))
   \<and> length fallbackStations = 9"
proof -
  let ?request = "\<lparr>req_lat = station_lat stationA, req_lng = station_lng stationA, radiusKm = 50,
                   req_connectorTypes = [''CCS2'']\<rparr>"
  let ?live = "\<lambda>request::PublicChargingStationsRequest. None :: ChargingStation list option"
  have unreachable: "?live ?request = None" by simp
  have member: "stationA \<in> set fallbackStations"
    by (simp add: stationA_def fallbackStations_def)
  from C7_fallback_within_radius [of ?live ?request, OF unreachable]
  have "\<forall>s\<in>set fallbackStations.
             0 \<le> radiusKm ?request \<and> req_lat ?request = station_lat s \<and> req_lng ?request = station_lng s
             \<longrightarrow> s \<in> set (stations (getNearbyStations ?live ?request))"
    by (elim conjE)
  from bspec [OF this member]
  have "stationA \<in> set (stations (getNearbyStations ?live ?request))"
    by simp
  with member length_fallbackStations show ?thesis by simp
qed

text \<open>
  C8, as amended. The profile of a leg is requested for 11 points, the ends of 10 equal steps
  along the straight line from origin to destination (both ends included); the elevations of
  the profile are those the service answers, 0 where one is missing. The elevation gain is
  the rounding, to a whole metre, of the sum of the positive consecutive differences
  (descents are ignored). When the service fails the profile is flat, two points at
  elevation 50, its gain is 0, and the request does not fail for it.
\<close>

theorem C8_elevation_profile:
  "length (interpolateRoutePoints orig dest 10) = 11
   \<and> (\<forall>i\<le>10. interpolateRoutePoints orig dest 10 ! i =
         \<lparr>lat = lat orig + (lat dest - lat orig) * (real i / 10),
          lng = lng orig + (lng dest - lng orig) * (real i / 10),
          elevation = None\<rparr>)
   \<and> calculateElevationGain profile =
       Math_round (sum_list (map (\<lambda>(p, q). max 0 (ed_elevation q - ed_elevation p))
                                 (zip profile (tl profile))))
   \<and> (api (interpolateRoutePoints orig dest 10) = Some results \<longrightarrow>
        map ed_elevation (getElevationProfile api orig dest) =
          map (\<lambda>result. case result of None \<Rightarrow> 0 | Some e \<Rightarrow> e) results)
   \<and> (api (interpolateRoutePoints orig dest 10) = None \<longrightarrow>
        getElevationProfile api orig dest =
          [\<lparr>ed_elevation = 50, ed_distance = 0\<rparr>,
           \<lparr>ed_elevation = 50,
            ed_distance = calculateDistance (lat orig) (lng orig) (lat dest) (lng dest)\<rparr>]
        \<and> calculateElevationGain (getElevationProfile api orig dest) = 0)
   \<and> (\<exists>plan. calculateOptimalRoute env orig dest veh soc (Some weather) = Inr plan)"
proof -
  have points: "\<forall>i\<le>10. interpolateRoutePoints orig dest 10 ! i =
         \<lparr>lat = lat orig + (lat dest - lat orig) * (real i / 10),
          lng = lng orig + (lng dest - lng orig) * (real i / 10),
          elevation = None\<rparr>"
    using nth_interpolateRoutePoints [of _ 10 orig dest] by simp
  have flat: "calculateElevationGain (getElevationProfile api orig dest) = 0"
    if "api (interpolateRoutePoints orig dest 10) = None"
    using that by (simp add: getElevationProfile_failure calculateElevationGain_def Math_round_def)
  from points flat show ?thesis
    using length_interpolateRoutePoints [of orig dest 10]
      calculateElevationGain_sum [of profile]
      getElevationProfile_success [of api orig dest results]
      getElevationProfile_failure [of api orig dest]
      calculateOptimalRoute_returns [of env orig dest veh soc weather]
    by simp
qed

text \<open>
  Eleven points are sampled, not ten, and a climb of 0.4 m is a gain of 0.
\<close>

theorem C8_counterexample:
  "length (interpolateRoutePoints pointA pointA 10) = 11
   \<and> calculateElevationGain [\<lparr>ed_elevation = 0, ed_distance = 0\<rparr>,
                              \<lparr>ed_elevation = 2 / 5, ed_distance = 1\<rparr>] = 0
   \<and> sum_list (map (\<lambda>(p, q). max 0 (ed_elevation q - ed_elevation p))
        (zip [\<lparr>ed_elevation = 0, ed_distance = 0\<rparr>, \<lparr>ed_elevation = 2 / 5, ed_distance = 1\<rparr>]
             (tl [\<lparr>ed_elevation = 0, ed_distance = 0\<rparr>, \<lparr>ed_elevation = 2 / 5, ed_distance = 1\<rparr>])))
       = 2 / 5"
  by (simp add: length_interpolateRoutePoints calculateElevationGain_def Math_round_def)

theorem C8_witness:
  "(5::nat) \<le> 10
   \<and> interpolateRoutePoints \<lparr>lat = 25, lng = 55, elevation = None\<rparr> \<lparr>lat = 24, lng = 54, elevation = None\<rparr> 10 ! 5
       = \<lparr>lat = 49 / 2, lng = 109 / 2, elevation = None\<rparr>
   \<and> elevationApi envA (interpolateRoutePoints pointA pointA 10) = None
   \<and> getElevationProfile (elevationApi envA) pointA pointA
       = [\<lparr>ed_elevation = 50, ed_distance = 0\<rparr>, \<lparr>ed_elevation = 50, ed_distance = 0\<rparr>]
   \<and> calculateElevationGain (getElevationProfile (elevationApi envA) pointA pointA) = 0
   \<and> (\<lambda>points. Some [Some 10, None, Some 30, Some 25]) (interpolateRoutePoints pointA pointA 10)
       = Some [Some 10, None, Some 30, Some 25]
   \<and> map ed_elevation (getElevationProfile (\<lambda>points. Some [Some 10, None, Some 30, Some 25]) pointA pointA)
       = [10, 0, 30, 25]
   \<and> calculateElevationGain (getElevationProfile (\<lambda>points. Some [Some 10, None, Some 30, Some 25]) pointA pointA)
       = 30"
proof -
  let ?o = "\<lparr>lat = 25, lng = 55, elevation = None\<rparr>"
  let ?d = "\<lparr>lat = 24, lng = 54, elevation = None\<rparr>"
  let ?api = "\<lambda>points::RoutePoint list. Some [Some 10, None, Some 30, Some (25::real)]"
  note inst1 = C8_elevation_profile [of ?o ?d "[]" "elevationApi envA" "[]" envA vehicleA 10 weatherA]
  note inst2 = C8_elevation_profile [of pointA pointA
      "getElevationProfile (elevationApi envA) pointA pointA" "elevationApi envA" "[]" envA vehicleA 10 weatherA]
  note inst3 = C8_elevation_profile [of pointA pointA
      "getElevationProfile ?api pointA pointA" ?api "[Some 10, None, Some 30, Some 25]" envA vehicleA 10 weatherA]
  have fail: "elevationApi envA (interpolateRoutePoints pointA pointA 10) = None"
    by (simp add: envA_def)
  from inst1 have mid: "interpolateRoutePoints ?o ?d 10 ! 5 = \<lparr>lat = 49 / 2, lng = 109 / 2, elevation = None\<rparr>"
    by simp
  from inst2 fail have flat0: "getElevationProfile (elevationApi envA) pointA pointA
       = [\<lparr>ed_elevation = 50, ed_distance = 0\<rparr>,
          \<lparr>ed_elevation = 50,
           ed_distance = calculateDistance (lat pointA) (lng pointA) (lat pointA) (lng pointA)\<rparr>]"
    and gain0: "calculateElevationGain (getElevationProfile (elevationApi envA) pointA pointA) = 0"
    by blast+
  from flat0 have flat: "getElevationProfile (elevationApi envA) pointA pointA
       = [\<lparr>ed_elevation = 50, ed_distance = 0\<rparr>, \<lparr>ed_elevation = 50, ed_distance = 0\<rparr>]"
    by (simp only: calculateDistance_same)
  from inst3 have elevs: "map ed_elevation (getElevationProfile ?api pointA pointA) = [10, 0, 30, 25]"
    by simp
  have gain: "calculateElevationGain (getElevationProfile ?api pointA pointA) = 30"
    by (simp add: calculateElevationGain_def getElevationProfile_def Math_round_def Let_def upt_rec)
  from mid fail flat gain0 elevs gain show ?thesis by simp
qed

text \<open>
  C9. For a fixed vehicle whose efficiency, mass, drag coefficient and frontal area are not
  negative, and any weather sample, \<open>calculateEnergyConsumption\<close> is non-decreasing in the
  distance and in the elevation gain, over non-negative distances and gains.
\<close>

theorem C9_energy_monotone:
  assumes vehicle_ok: "0 \<le> efficiency veh" "0 \<le> mass veh" "0 \<le> dragCoefficient veh" "0 \<le> frontalArea veh"
    and d: "0 \<le> d1" "d1 \<le> d2" and g: "0 \<le> g1" "g1 \<le> g2"
  shows "calculateEnergyConsumption d1 g1 veh weather \<le> calculateEnergyConsumption d2 g2 veh weather"
proof -
  define a where "a = efficiency veh / 1000 + 0.5 * 1.225 * dragCoefficient veh * frontalArea veh
                    * (80 / 3.6) ^ 2 * (80 / 3.6) / 1000 / 80 * 0.1"
  define b where "b = mass veh / 1000000"
  define m where "m = getWeatherMultiplier weather veh"
  have a: "0 \<le> a" unfolding a_def using vehicle_ok by simp
  have b: "0 \<le> b" unfolding b_def using vehicle_ok by simp
  have i1: "0 \<le> d1 * a + g1 * b" using a b d g by simp
  have le: "d1 * a + g1 * b \<le> d2 * a + g2 * b"
    using a b d g by (simp add: add_mono mult_right_mono)
  have "max 0 ((d1 * a + g1 * b) * m) \<le> max 0 ((d2 * a + g2 * b) * m)"
  proof (cases "0 \<le> m")
    case True
    with le have "(d1 * a + g1 * b) * m \<le> (d2 * a + g2 * b) * m" by (rule mult_right_mono)
    then show ?thesis by simp
  next
    case False
    with i1 have "(d1 * a + g1 * b) * m \<le> 0" by (simp add: mult_nonneg_nonpos)
    then show ?thesis by simp
  qed
  then show ?thesis
    unfolding calculateEnergyConsumption_eq a_def b_def m_def .
qed

theorem C9_witness:
  "0 \<le> efficiency vehicleA \<and> 0 \<le> mass vehicleA \<and> 0 \<le> dragCoefficient vehicleA \<and> 0 \<le> frontalArea vehicleA
   \<and> (0::real) \<le> 100 \<and> (100::real) \<le> 200 \<and> (0::real) \<le> 0 \<and> (0::real) \<le> 500
   \<and> calculateEnergyConsumption 100 0 vehicleA weatherA \<le> calculateEnergyConsumption 200 500 vehicleA weatherA"
  using C9_energy_monotone [of vehicleA 100 200 0 500 weatherA]
  by (simp add: vehicleA_def)

text \<open>
  C10. The planner inserts at most one charging stop per segment: the list of stops that
  \<open>findOptimalChargingStops\<close> returns is never longer than the list of segments. The
  route service builds exactly one segment, so every plan it returns has at most one stop.
\<close>

theorem C10_at_most_one_stop_per_segment:
  "(findOptimalChargingStops live segs veh soc = Inr cstops \<longrightarrow> length cstops \<le> length segs) \<and>
   (calculateOptimalRoute env orig dest veh soc weatherData = Inr plan \<longrightarrow>
      length (segments plan) = 1 \<and> length (chargingStops plan) \<le> 1)"
proof -
  have stops_le: "length cs \<le> length ss"
    if r: "findOptimalChargingStops lv ss veh soc = Inr cs" for lv ss cs
  proof -
    from r obtain segment0 rest where ss: "ss = segment0 # rest"
      by (cases ss) (simp_all add: findOptimalChargingStops_def)
    from r ss have "cs = stops (foldl (planSegment lv veh) (initialState segment0 soc) ss)"
      by (simp add: findOptimalChargingStops_def)
    then show ?thesis
      using length_stops_foldl [of lv veh "initialState segment0 soc" ss]
      by (simp add: initialState_def)
  qed
  have plan_le: "length (segments plan) = 1 \<and> length (chargingStops plan) \<le> 1"
    if r: "calculateOptimalRoute env orig dest veh soc weatherData = Inr plan"
  proof -
    from calculateOptimalRoute_Inr [OF r] obtain weather where
      s: "segments plan = calculateRouteSegments orig dest veh
                            (getElevationProfile (elevationApi env) orig dest) weather"
      and f: "findOptimalChargingStops (openChargeMap env) (segments plan) veh soc = Inr (chargingStops plan)"
      by blast
    from s have l: "length (segments plan) = 1"
      by (simp add: length_calculateRouteSegments)
    with stops_le [OF f] show ?thesis by simp
  qed
  from stops_le plan_le show ?thesis by blast
qed


theorem C10_witness:
  "findOptimalChargingStops (\<lambda>request. Some [stationA]) [legA 60, legA 60] vehicleA 10
     = Inr [\<lparr>station = stationA, arrivalSOC = 10, departureSOC = 80, chargingTime = 21, energyAdded = 52.5\<rparr>,
            \<lparr>station = stationA, arrivalSOC = 0, departureSOC = 80, chargingTime = 24, energyAdded = 60\<rparr>]
   \<and> length [\<lparr>station = stationA, arrivalSOC = 10, departureSOC = 80, chargingTime = 21, energyAdded = 52.5\<rparr>,
            \<lparr>station = stationA, arrivalSOC = 0, departureSOC = 80, chargingTime = 24, energyAdded = 60\<rparr>]
        \<le> length [legA 60, legA 60]
   \<and> map_sum id (\<lambda>plan. (length (segments plan), length (chargingStops plan)))
         (calculateOptimalRoute envA pointA pointA vehicleA 10 None) = Inr (1, 1)"
proof -
  obtain plan where p: "calculateOptimalRoute envA pointA pointA vehicleA 10 None = Inr plan"
    and l: "length (chargingStops plan) = 1"
    using planA by simp
  from C10_at_most_one_stop_per_segment
         [where live = "\<lambda>request. Some [stationA]" and segs = "[legA 60, legA 60]"
            and veh = vehicleA and soc = 10
            and cstops = "[\<lparr>station = stationA, arrivalSOC = 10, departureSOC = 80, chargingTime = 21, energyAdded = 52.5\<rparr>,
               \<lparr>station = stationA, arrivalSOC = 0, departureSOC = 80, chargingTime = 24, energyAdded = 60\<rparr>]"
            and env = envA and orig = pointA and dest = pointA and weatherData = None and plan = plan]
       stopsA p l
  show ?thesis by simp
qed

end
